theory Spec2Isabelle
  imports Main "HOL-Library.Sublist"
begin

section \<open>Standard-library functions used by the server\<close>

text \<open>
  Go strings are byte sequences; a byte is a \<^typ>\<open>char\<close> and a Go string or
  byte slice is a \<^typ>\<open>string\<close>.
\<close>

subsection \<open>strings.Contains and strings.Join\<close>

fun strings_Contains :: "string \<Rightarrow> string \<Rightarrow> bool" where
  "strings_Contains [] substr = (substr = [])"
| "strings_Contains (c # cs) substr = (prefix substr (c # cs) \<or> strings_Contains cs substr)"

fun strings_Join :: "string list \<Rightarrow> string \<Rightarrow> string" where
  "strings_Join [] sep = []"
| "strings_Join [x] sep = x"
| "strings_Join (x # y # ys) sep = x @ sep @ strings_Join (y # ys) sep"

subsection \<open>encoding/hex and encoding/base64\<close>

definition hextable :: string where
  "hextable = ''0123456789abcdef''"

fun hex_EncodeToString :: "string \<Rightarrow> string" where
  "hex_EncodeToString [] = []"
| "hex_EncodeToString (b # bs) =
     hextable ! (of_char b div 16) # hextable ! (of_char b mod 16) # hex_EncodeToString bs"

definition encodeURL :: string where
  "encodeURL = ''ABCDEFGHIJKLMNOPQRSTUVWXYZabcdefghijklmnopqrstuvwxyz0123456789-_''"

text \<open>
  \<open>base64_EncodeToString pad src\<close> is \<open>Encoding.EncodeToString\<close> over the URL
  alphabet: \<open>pad = True\<close> is \<open>base64.URLEncoding\<close> (padding character \<open>=\<close>),
  \<open>pad = False\<close> is \<open>base64.RawURLEncoding\<close> (no padding).
\<close>

fun base64_EncodeToString :: "bool \<Rightarrow> string \<Rightarrow> string" where
  "base64_EncodeToString pad [] = []"
| "base64_EncodeToString pad [a] =
     (let val = (of_char a :: nat) * 65536 in
        [encodeURL ! (val div 262144 mod 64), encodeURL ! (val div 4096 mod 64)]
        @ (if pad then ''=='' else []))"
| "base64_EncodeToString pad [a, b] =
     (let val = (of_char a :: nat) * 65536 + of_char b * 256 in
        [encodeURL ! (val div 262144 mod 64), encodeURL ! (val div 4096 mod 64),
         encodeURL ! (val div 64 mod 64)]
        @ (if pad then ''='' else []))"
| "base64_EncodeToString pad (a # b # c # rest) =
     (let val = (of_char a :: nat) * 65536 + of_char b * 256 + of_char c in
        [encodeURL ! (val div 262144 mod 64), encodeURL ! (val div 4096 mod 64),
         encodeURL ! (val div 64 mod 64), encodeURL ! (val mod 64)])
     @ base64_EncodeToString pad rest"

subsection \<open>net/url: url.Values\<close>

text \<open>
  A \<open>url.Values\<close> is modelled as the list of its (key, value) pairs, the values of
  one key in their order of insertion. \<open>Get\<close> returns the first value of the key or
  the empty string, \<open>Del\<close> removes every value of the key, \<open>Add\<close> appends a value
  and \<open>Set\<close> replaces the values of the key by one value.
\<close>

type_synonym url_Values = "(string \<times> string) list"

definition Values_Get :: "url_Values \<Rightarrow> string \<Rightarrow> string" where
  "Values_Get v key = (case map_of v key of None \<Rightarrow> [] | Some x \<Rightarrow> x)"

definition Values_Del :: "url_Values \<Rightarrow> string \<Rightarrow> url_Values" where
  "Values_Del v key = filter (\<lambda>kv. fst kv \<noteq> key) v"

definition Values_Add :: "url_Values \<Rightarrow> string \<Rightarrow> string \<Rightarrow> url_Values" where
  "Values_Add v key val = v @ [(key, val)]"

definition Values_Set :: "url_Values \<Rightarrow> string \<Rightarrow> string \<Rightarrow> url_Values" where
  "Values_Set v key val = Values_Del v key @ [(key, val)]"

subsection \<open>go-cache\<close>

text \<open>
  The cache maps a key to its value and its expiration time in nanoseconds (0: never
  expires). \<open>Get\<close> treats an entry whose expiration lies before the current time as
  absent; \<open>Add\<close> stores only when \<open>Get\<close> finds nothing under the key (its error is
  ignored by every caller here) and is only called with a positive duration;
  \<open>Flush\<close> drops every entry.
\<close>

type_synonym Cache = "string \<rightharpoonup> (string \<times> nat)"

definition cache_Get :: "nat \<Rightarrow> Cache \<Rightarrow> string \<Rightarrow> string option" where
  "cache_Get now c k =
     (case c k of
        None \<Rightarrow> None
      | Some (x, e) \<Rightarrow> if 0 < e \<and> e < now then None else Some x)"

definition cache_Add :: "nat \<Rightarrow> Cache \<Rightarrow> string \<Rightarrow> string \<Rightarrow> nat \<Rightarrow> Cache" where
  "cache_Add now c k x d =
     (case cache_Get now c k of
        Some _ \<Rightarrow> c
      | None \<Rightarrow> c(k \<mapsto> (x, now + d)))"

definition cache_Flush :: "Cache \<Rightarrow> Cache" where
  "cache_Flush c = Map.empty"

definition time_Hour :: nat where
  "time_Hour = 3600000000000"

section \<open>Data model of the server\<close>

record Exchange =
  Error :: string
  ErrorDescription :: string
  AccessToken :: string
  TokenType :: string
  ExpiresIn :: int
  Scope :: string
  IdToken :: string

record PKCE =
  CodeVerifier :: string
  CodeChallenge :: string
  CodeChallengeMethod :: string

text \<open>The values that \<open>s.idxClient.Config().Okta.IDX\<close> exposes.\<close>

record IDX =
  Issuer :: string
  ClientID :: string
  ClientSecret :: string
  Scopes :: "string list"
  RedirectURI :: string

text \<open>
  The fields of \<open>Server\<close> that the handlers read or write. The template set, the
  cookie store and the HTTP server object are reached through the environment below.
\<close>

record Server =
  idxConfig :: IDX
  cache :: Cache
  pkce :: "PKCE option"
  state :: string
  interactionHandle :: string

text \<open>
  A gorilla session: \<open>Values\<close> holds values of any type, of which the handlers
  distinguish strings from everything else.
\<close>

datatype session_value = VString string | VOther

record Session =
  ID :: string
  Values :: "string \<rightharpoonup> session_value"

text \<open>\<open>v == nil || v == ""\<close> on a value read from \<open>session.Values\<close>.\<close>

definition isNilOrEmpty :: "session_value option \<Rightarrow> bool" where
  "isNilOrEmpty v = (v = None \<or> v = Some (VString []))"

text \<open>
  An inbound request: its parsed URL query, and the session and error that
  \<open>s.sessionStore.Get(r, SESSION_STORE_NAME)\<close> returns for it (the store returns a
  session also when it returns an error).
\<close>

record Request =
  query :: url_Values
  session :: Session
  sessionErr :: "string option"

record HttpRequest =
  Method :: string
  URL :: string
  ReqBody :: string
  Header :: "(string \<times> string) list"

text \<open>
  An HTTP response: \<open>Body\<close> is what \<open>ioutil.ReadAll(resp.Body)\<close> reads and
  \<open>BodyErr\<close> the error it returns.
\<close>

record HttpResponse =
  Status :: string
  Body :: string
  BodyErr :: "string option"

record JwtVerifier =
  JIssuer :: string
  ClaimsToValidate :: "string \<rightharpoonup> string"

type_synonym Jwt = "(string \<times> string) list"

text \<open>
  The data handed to the login template. The struct of \<open>LoginCallbackHandler\<close> has no
  \<open>Nonce\<close> field, hence the option.
\<close>

record customData =
  IsAuthenticated :: bool
  BaseUrl :: string
  ClientId :: string
  DataIssuer :: string
  State :: string
  Nonce :: "string option"
  InteractionHandle :: string
  Pkce :: "PKCE option"

text \<open>What a handler does to its \<open>http.ResponseWriter\<close>, in order.\<close>

datatype w_action =
    HeaderAdd string string
  | HttpError string nat
  | Fprintln string
  | ExecuteTemplate string customData
  | Redirect string nat
  | SessionSave Session

text \<open>
  The world outside the server object: the bytes the random source will deliver, the
  clock, the requests handed to \<open>client.Do\<close>, the lines printed or logged, and the
  actions on the response writer of the request being handled.
\<close>

record World =
  entropy :: string
  clock :: nat
  sent :: "HttpRequest list"
  logs :: "string list"
  out :: "w_action list"

text \<open>
  The collaborators of the server: the HTTP client (a nil response is \<open>None\<close>, a nil error
  is \<open>None\<close>), the URL check of \<open>http.NewRequest\<close>, the JWT verifier, the JSON
  decoders for the two response shapes, SHA-256, \<open>url.Values.Encode\<close>,
  \<open>url.Parse\<close> (scheme and host name) and template execution.
\<close>

record Env =
  client_Do :: "HttpRequest \<Rightarrow> HttpResponse option \<times> string option"
  NewRequest_err :: "string \<Rightarrow> string option"
  VerifyIdToken :: "JwtVerifier \<Rightarrow> string \<Rightarrow> Jwt option \<times> string option"
  Unmarshal_Exchange :: "string \<Rightarrow> string + Exchange"
  Unmarshal_handle :: "string \<Rightarrow> string + string"
  sha256_Sum :: "string \<Rightarrow> string"
  Values_Encode :: "url_Values \<Rightarrow> string"
  url_Parse :: "string \<Rightarrow> string + (string \<times> string)"
  tpl_Execute :: "string \<Rightarrow> customData \<Rightarrow> string option"

text \<open>
  A handler returns, ends the process (\<open>os.Exit\<close>, \<open>log.Fatalf\<close>) or panics; the
  HTTP server recovers a panic, so the server object survives it.
\<close>

datatype outcome = Returned Server World | Exit World | Panic Server World

datatype 'a res = Ret 'a World | Fatal World | Crash World

datatype startup = Started Server World | StartExit World | StartPanic World

definition writeW :: "w_action \<Rightarrow> World \<Rightarrow> World" where
  "writeW a w = w\<lparr>out := out w @ [a]\<rparr>"

text \<open>
  A line written by \<open>fmt.Printf\<close>, \<open>log.Printf\<close> or \<open>log.Fatalf\<close>; the trailing
  newline of the format is left out.
\<close>

definition printf :: "string \<Rightarrow> World \<Rightarrow> World" where
  "printf msg w = w\<lparr>logs := logs w @ [msg]\<rparr>"

text \<open>
  \<open>rand.Read(b)\<close> with \<open>len(b) = n\<close>: the next \<open>n\<close> bytes of the source, or an
  error and a partly filled buffer when the source has fewer.
\<close>

definition rand_Read :: "nat \<Rightarrow> World \<Rightarrow> (string \<times> string option) \<times> World" where
  "rand_Read n w =
     (if n \<le> length (entropy w)
      then ((take n (entropy w), None), w\<lparr>entropy := drop n (entropy w)\<rparr>)
      else ((entropy w @ replicate (n - length (entropy w)) (CHR 0x00),
             Some ''unexpected EOF''), w\<lparr>entropy := []\<rparr>))"

definition http_NewRequest :: "Env \<Rightarrow> string \<Rightarrow> string \<Rightarrow> string \<Rightarrow> string + HttpRequest" where
  "http_NewRequest env method url body =
     (case NewRequest_err env url of
        Some err \<Rightarrow> Inl err
      | None \<Rightarrow> Inr \<lparr>Method = method, URL = url, ReqBody = body, Header = []\<rparr>)"

definition Header_Add :: "HttpRequest \<Rightarrow> string \<Rightarrow> string \<Rightarrow> HttpRequest" where
  "Header_Add req k v = req\<lparr>Header := Header req @ [(k, v)]\<rparr>"

definition Do :: "Env \<Rightarrow> HttpRequest \<Rightarrow> World \<Rightarrow> (HttpResponse option \<times> string option) \<times> World" where
  "Do env req w = (client_Do env req, w\<lparr>sent := sent w @ [req]\<rparr>)"

section \<open>The server\<close>

subsection \<open>NewServer\<close>

text \<open>
  \<open>NewServer idxNew tplErr\<close>: \<open>idxNew\<close> is what \<open>idx.NewClient()\<close> returns and
  \<open>tplErr\<close> the error of \<open>template.ParseGlob\<close>, on which \<open>template.Must\<close>
  panics. The error of \<open>rand.Read\<close> is dropped by the source.
\<close>

definition NewServer :: "string + IDX \<Rightarrow> string option \<Rightarrow> World \<Rightarrow> startup" where
  "NewServer idxNew tplErr w =
     (case idxNew of
        Inl err \<Rightarrow> StartExit (printf (''new client error: '' @ err) w)
      | Inr cfg \<Rightarrow>
          (case rand_Read 16 w of
             ((b, _), w1) \<Rightarrow>
               (case tplErr of
                  Some _ \<Rightarrow> StartPanic w1
                | None \<Rightarrow>
                    Started \<lparr>idxConfig = cfg, cache = Map.empty, pkce = None,
                             state = hex_EncodeToString b, interactionHandle = []\<rparr> w1)))"

subsection \<open>oAuthEndPoint, verifyToken, isAuthenticated\<close>

definition oAuthEndPoint :: "Server \<Rightarrow> string \<Rightarrow> string" where
  "oAuthEndPoint s operation =
     (let issuer = Issuer (idxConfig s) in
      if strings_Contains issuer ''oauth2''
      then issuer @ ''/v1/'' @ operation
      else issuer @ ''/oauth2/v1/'' @ operation)"

definition verifyToken :: "Env \<Rightarrow> Server \<Rightarrow> string \<Rightarrow> string + Jwt" where
  "verifyToken env s t =
     (let tv = [''aud'' \<mapsto> ClientID (idxConfig s)];
          jv = \<lparr>JIssuer = Issuer (idxConfig s), ClaimsToValidate = tv\<rparr>
      in case VerifyIdToken env jv t of
           (_, Some err) \<Rightarrow> Inl (err @ ''; token: '' @ t)
         | (Some result, None) \<Rightarrow> Inr result
         | (None, None) \<Rightarrow> Inl ''token could not be verified: '')"

definition isAuthenticated :: "Server \<Rightarrow> Request \<Rightarrow> World \<Rightarrow> bool" where
  "isAuthenticated s r w =
     (let idToken = Values (session r) ''id_token'';
          idToken = (if isNilOrEmpty idToken
                     then map_option VString
                            (cache_Get (clock w) (cache s) (ID (session r) @ ''-id_token''))
                     else idToken)
      in if sessionErr r \<noteq> None \<or> isNilOrEmpty idToken then False else True)"

subsection \<open>PKCE data and nonce\<close>

definition createCodeVerifier :: "World \<Rightarrow> (string + string) \<times> World" where
  "createCodeVerifier w =
     (case rand_Read 86 w of
        ((codeVerifier, Some err), w1) \<Rightarrow> (Inl (''error creating code_verifier: '' @ err), w1)
      | ((codeVerifier, None), w1) \<Rightarrow> (Inr (base64_EncodeToString False codeVerifier), w1))"

text \<open>\<open>h.Write\<close> of a hash never returns an error, so that branch of the source is dead.\<close>

definition createPKCEData :: "Env \<Rightarrow> World \<Rightarrow> (string + PKCE) \<times> World" where
  "createPKCEData env w =
     (case createCodeVerifier w of
        (Inl err, w1) \<Rightarrow> (Inl (''failed to create codeVerifier: '' @ err), w1)
      | (Inr codeVerifier, w1) \<Rightarrow>
          (let codeChallenge = base64_EncodeToString False (sha256_Sum env codeVerifier)
           in (Inr \<lparr>CodeVerifier = codeVerifier, CodeChallenge = codeChallenge,
                    CodeChallengeMethod = ''S256''\<rparr>, w1)))"

definition generateNonce :: "World \<Rightarrow> (string \<times> string option) \<times> World" where
  "generateNonce w =
     (case rand_Read 32 w of
        ((nonceBytes, Some err), w1) \<Rightarrow> (([], Some ''could not generate nonce''), w1)
      | ((nonceBytes, None), w1) \<Rightarrow> ((base64_EncodeToString True nonceBytes, None), w1))"

subsection \<open>getInteractionHandle\<close>

definition getInteractionHandle ::
  "Env \<Rightarrow> Server \<Rightarrow> string \<Rightarrow> World \<Rightarrow> (string \<times> string option) res" where
  "getInteractionHandle env s codeChallenge w =
     (let data = [];
          data = Values_Set data ''scope'' (strings_Join (Scopes (idxConfig s)) '' '');
          data = Values_Set data ''code_challenge'' codeChallenge;
          data = Values_Set data ''code_challenge_method'' ''S256'';
          data = Values_Set data ''redirect_uri'' (RedirectURI (idxConfig s));
          data = Values_Set data ''state'' (state s);
          endpoint = oAuthEndPoint s ''interact''
      in case http_NewRequest env ''POST'' endpoint (Values_Encode env data) of
           Inl err \<Rightarrow> Ret ([], Some (''failed to create interact http request: '' @ err)) w
         | Inr req0 \<Rightarrow>
             (let req = Header_Add req0 ''Content-Type'' ''application/x-www-form-urlencoded''
              in case Do env req w of
                   ((_, Some err), w1) \<Rightarrow> Ret ([], Some (''http call has failed: '' @ err)) w1
                 | ((None, None), w1) \<Rightarrow> Crash w1
                 | ((Some resp, None), w1) \<Rightarrow>
                     (case BodyErr resp of
                        Some err \<Rightarrow> Fatal (printf (''READ ERROR: '' @ err) w1)
                      | None \<Rightarrow>
                          (case Unmarshal_handle env (Body resp) of
                             Inl err \<Rightarrow> Ret ([], Some err) w1
                           | Inr handle \<Rightarrow> Ret (handle, None) w1))))"

subsection \<open>LoginHandler\<close>

text \<open>
  The part of \<open>LoginHandler\<close> from the nonce on, which both branches of the PKCE test
  reach. \<open>s.pkce\<close> is dereferenced for the interaction handle.
\<close>

definition LoginHandler_page :: "Env \<Rightarrow> Server \<Rightarrow> Request \<Rightarrow> World \<Rightarrow> outcome" where
  "LoginHandler_page env s r w =
     (case generateNonce w of
        ((_, Some err), w1) \<Rightarrow> Exit (printf (''error: '' @ err) w1)
      | ((nonce, None), w1) \<Rightarrow>
          (case pkce s of
             None \<Rightarrow> Panic s w1
           | Some p \<Rightarrow>
               (case getInteractionHandle env s (CodeChallenge p) w1 of
                  Fatal w2 \<Rightarrow> Exit w2
                | Crash w2 \<Rightarrow> Panic s w2
                | Ret (handle, err) w2 \<Rightarrow>
                    (let s1 = s\<lparr>interactionHandle := handle\<rparr>;
                         w3 = (case err of
                                 Some e \<Rightarrow> printf (''could not get interactionHandle: '' @ e) w2
                               | None \<Rightarrow> w2)
                     in case url_Parse env (Issuer (idxConfig s1)) of
                          Inl e \<Rightarrow> Exit (printf (''error: '' @ e) w3)
                        | Inr (scheme, hostname) \<Rightarrow>
                            (let data = \<lparr>IsAuthenticated = isAuthenticated s1 r w3,
                                         BaseUrl = scheme @ ''://'' @ hostname,
                                         ClientId = ClientID (idxConfig s1),
                                         DataIssuer = Issuer (idxConfig s1),
                                         State = state s1,
                                         Nonce = Some nonce,
                                         InteractionHandle = handle,
                                         Pkce = pkce s1\<rparr>;
                                 w4 = writeW (ExecuteTemplate ''login.gohtml'' data) w3
                             in case tpl_Execute env ''login.gohtml'' data of
                                  Some e \<Rightarrow> Returned s1 (printf (''error: '' @ e) w4)
                                | None \<Rightarrow> Returned s1 w4)))))"

definition LoginHandler :: "Env \<Rightarrow> Server \<Rightarrow> Request \<Rightarrow> World \<Rightarrow> outcome" where
  "LoginHandler env s r w =
     (let w1 = writeW (HeaderAdd ''Cache-Control'' ''no-cache'') w;
          w2 = (case sessionErr r of
                  Some err \<Rightarrow> writeW (HttpError err 500) w1
                | None \<Rightarrow> w1);
          vals = Values (session r)
      in if isNilOrEmpty (vals ''pkceData'') then
           (case createPKCEData env w2 of
              (Inl err, w3) \<Rightarrow> Exit (printf (''could not create pkce data: '' @ err) w3)
            | (Inr p, w3) \<Rightarrow>
                (let vals1 = vals(''pkce_code_verifier'' \<mapsto> VString (CodeVerifier p));
                     vals2 = vals1(''pkce_code_challenge'' \<mapsto> VString (CodeChallenge p));
                     vals3 = vals2(''pkce_code_challenge_method'' \<mapsto>
                                     VString (CodeChallengeMethod p));
                     w4 = writeW (SessionSave ((session r)\<lparr>Values := vals3\<rparr>)) w3
                 in LoginHandler_page env (s\<lparr>pkce := Some p\<rparr>)
                      (r\<lparr>session := (session r)\<lparr>Values := vals3\<rparr>\<rparr>) w4))
         else
           (case (pkce s, vals ''pkce_code_verifier'') of
              (Some p0, Some (VString v)) \<Rightarrow>
                (let p1 = p0\<lparr>CodeVerifier := v\<rparr> in
                 case vals ''pkce_code_challenge'' of
                   Some (VString c) \<Rightarrow>
                     (let p2 = p1\<lparr>CodeChallenge := c\<rparr> in
                      case vals ''pkce_code_challenge_method'' of
                        Some (VString m) \<Rightarrow>
                          LoginHandler_page env
                            (s\<lparr>pkce := Some (p2\<lparr>CodeChallengeMethod := m\<rparr>)\<rparr>) r w2
                      | _ \<Rightarrow> Panic (s\<lparr>pkce := Some p2\<rparr>) w2)
                 | _ \<Rightarrow> Panic (s\<lparr>pkce := Some p1\<rparr>) w2)
            | _ \<Rightarrow> Panic s w2))"

subsection \<open>LoginCallbackHandler\<close>

text \<open>The query of the token request: the callback's own query, edited.\<close>

definition tokenQuery :: "Server \<Rightarrow> Request \<Rightarrow> string \<Rightarrow> url_Values" where
  "tokenQuery s r code_verifier =
     (let q = query r;
          q = Values_Del q ''state'';
          q = Values_Add q ''grant_type'' ''interaction_code'';
          q = Values_Set q ''interaction_code'' (Values_Get (query r) ''interaction_code'');
          q = Values_Add q ''client_id'' (ClientID (idxConfig s));
          q = Values_Add q ''client_secret'' (ClientSecret (idxConfig s));
          q = Values_Add q ''code_verifier'' code_verifier
      in q)"

definition tokenURL :: "Env \<Rightarrow> Server \<Rightarrow> Request \<Rightarrow> string \<Rightarrow> string" where
  "tokenURL env s r code_verifier =
     oAuthEndPoint s (''token?'' @ Values_Encode env (tokenQuery s r code_verifier))"

text \<open>The widget page rendered on \<open>error=interaction_required\<close>.\<close>

definition callbackData :: "Server \<Rightarrow> Request \<Rightarrow> World \<Rightarrow> string \<times> string \<Rightarrow> customData" where
  "callbackData s r w parts =
     \<lparr>IsAuthenticated = isAuthenticated s r w,
      BaseUrl = fst parts @ ''://'' @ snd parts,
      ClientId = ClientID (idxConfig s),
      DataIssuer = Issuer (idxConfig s),
      State = state s,
      Nonce = None,
      InteractionHandle = interactionHandle s,
      Pkce = pkce s\<rparr>"

definition LoginCallbackHandler :: "Env \<Rightarrow> Server \<Rightarrow> Request \<Rightarrow> World \<Rightarrow> outcome" where
  "LoginCallbackHandler env s r w =
     (if Values_Get (query r) ''state'' \<noteq> state s then
        Returned s (writeW (Fprintln ''The state was not as expected'') w)
      else if Values_Get (query r) ''error'' = ''interaction_required'' then
        (let w1 = writeW (HeaderAdd ''Cache-Control'' ''no-cache'') w
         in case url_Parse env (Issuer (idxConfig s)) of
              Inl e \<Rightarrow> Exit (printf (''error: '' @ e) w1)
            | Inr parts \<Rightarrow>
                (let data = callbackData s r w1 parts;
                     w2 = writeW (ExecuteTemplate ''login.gohtml'' data) w1
                 in case tpl_Execute env ''login.gohtml'' data of
                      Some e \<Rightarrow> Returned s (printf (''error: '' @ e) w2)
                    | None \<Rightarrow> Returned s w2))
      else if Values_Get (query r) ''interaction_code'' = [] then
        Returned s
          (writeW (Fprintln ''The interaction_code was not returned or is not accessible'') w)
      else
        (let w1 = (case sessionErr r of
                     Some err \<Rightarrow> writeW (HttpError err 500) w
                   | None \<Rightarrow> w);
             vals = Values (session r)
         in if isNilOrEmpty (vals ''pkce_code_verifier'') \<or>
               isNilOrEmpty (vals ''pkce_code_challenge'') \<or>
               isNilOrEmpty (vals ''pkce_code_challenge_method'') then
              Returned s (writeW (Fprintln ''Could not get PKCE Data from session'') w1)
            else
              (case vals ''pkce_code_verifier'' of
                 Some (VString code_verifier) \<Rightarrow>
                   (case http_NewRequest env ''POST'' (tokenURL env s r code_verifier) [] of
                      Inl _ \<Rightarrow> Panic s w1
                    | Inr req0 \<Rightarrow>
                        (let req = Header_Add req0 ''Content-Type''
                                     ''application/x-www-form-urlencoded''
                         in case Do env req w1 of
                              ((_, Some err), w2) \<Rightarrow> Exit (printf (''RESP ERROR: '' @ err) w2)
                            | ((None, None), w2) \<Rightarrow> Panic s w2
                            | ((Some resp, None), w2) \<Rightarrow>
                                (case BodyErr resp of
                                   Some err \<Rightarrow> Exit (printf (''READ ERROR: '' @ err) w2)
                                 | None \<Rightarrow>
                                     (case Unmarshal_Exchange env (Body resp) of
                                        Inl err \<Rightarrow>
                                          Exit (printf (''UNMARSHAL ERROR: '' @ err) w2)
                                      | Inr exchange \<Rightarrow>
                                          (case verifyToken env s (IdToken exchange) of
                                             Inl verificationError \<Rightarrow>
                                               Exit (printf (''Verification Error: '' @
                                                       verificationError) w2)
                                           | Inr _ \<Rightarrow>
                                               (let c1 = cache_Add (clock w2) (cache s)
                                                           (ID (session r) @ ''-id_token'')
                                                           (IdToken exchange) time_Hour;
                                                    c2 = cache_Add (clock w2) c1
                                                           (ID (session r) @ ''-access_token'')
                                                           (AccessToken exchange) time_Hour
                                                in Returned (s\<lparr>cache := c2\<rparr>)
                                                     (writeW (Redirect ''/'' 302) w2)))))))
               | _ \<Rightarrow> Panic s w1)))"

subsection \<open>LogoutHandler\<close>

text \<open>The last two statements of \<open>LogoutHandler\<close>: flush the cache and redirect.\<close>

definition flushAndRedirect :: "Server \<Rightarrow> World \<Rightarrow> outcome" where
  "flushAndRedirect s w =
     Returned (s\<lparr>cache := cache_Flush (cache s)\<rparr>) (writeW (Redirect ''/'' 302) w)"

text \<open>
  The revocation block is guarded by \<open>err != nil\<close> of the session lookup. Inside it a
  nil request or a nil response is dereferenced (\<open>req.Header\<close>, \<open>resp.Body\<close>), which
  panics before the flush.
\<close>

definition LogoutHandler :: "Env \<Rightarrow> Server \<Rightarrow> Request \<Rightarrow> World \<Rightarrow> outcome" where
  "LogoutHandler env s r w =
     (case sessionErr r of
        None \<Rightarrow> flushAndRedirect s w
      | Some _ \<Rightarrow>
          (case cache_Get (clock w) (cache s) (ID (session r) @ ''-access_token'') of
             None \<Rightarrow> flushAndRedirect s w
           | Some accessToken \<Rightarrow>
               (let revokeTokenUrl = oAuthEndPoint s ''revoke'';
                    form = [];
                    form = Values_Set form ''token'' accessToken;
                    form = Values_Set form ''token_type_hint'' ''access_token'';
                    form = Values_Add form ''client_id'' (ClientID (idxConfig s));
                    form = Values_Add form ''client_secret'' (ClientSecret (idxConfig s))
                in case http_NewRequest env ''POST'' revokeTokenUrl (Values_Encode env form) of
                     Inl _ \<Rightarrow> Panic s w
                   | Inr req0 \<Rightarrow>
                       (let req = Header_Add (Header_Add req0 ''Accept'' ''application/json'')
                                    ''Content-Type'' ''application/x-www-form-urlencoded''
                        in case Do env req w of
                             ((None, _), w1) \<Rightarrow> Panic s w1
                           | ((Some resp, Some err), w1) \<Rightarrow>
                               flushAndRedirect s
                                 (printf (''revoke error; status: '' @ Status resp @
                                          '', body: '' @ Body resp) w1)
                           | ((Some resp, None), w1) \<Rightarrow> flushAndRedirect s w1))))"

section \<open>Observations on outcomes\<close>

fun serverOf :: "outcome \<Rightarrow> Server option" where
  "serverOf (Returned s w) = Some s"
| "serverOf (Exit w) = None"
| "serverOf (Panic s w) = Some s"

fun worldOf :: "outcome \<Rightarrow> World" where
  "worldOf (Returned s w) = w"
| "worldOf (Exit w) = w"
| "worldOf (Panic s w) = w"

text \<open>The pages rendered and the sessions saved, read off the response writer.\<close>

fun pageOf :: "w_action \<Rightarrow> customData option" where
  "pageOf (ExecuteTemplate name d) = Some d"
| "pageOf _ = None"

fun savedOf :: "w_action \<Rightarrow> Session option" where
  "savedOf (SessionSave x) = Some x"
| "savedOf _ = None"

definition pages :: "World \<Rightarrow> customData list" where
  "pages w = List.map_filter pageOf (out w)"

definition saved :: "World \<Rightarrow> Session list" where
  "saved w = List.map_filter savedOf (out w)"

text \<open>
  What a handler leaves behind apart from the page it renders and the lines it logs: the
  server object, the outbound requests and the sessions saved.
\<close>

definition kept :: "outcome \<Rightarrow> Server option \<times> HttpRequest list \<times> Session list" where
  "kept oc = (serverOf oc, sent (worldOf oc), saved (worldOf oc))"

text \<open>The values saved under one session key, and whether a handler panicked.\<close>

definition savedValues :: "string \<Rightarrow> World \<Rightarrow> session_value option list" where
  "savedValues key w = map (\<lambda>x. Values x key) (saved w)"

fun panicked :: "outcome \<Rightarrow> bool" where
  "panicked (Panic s w) = True"
| "panicked _ = False"

section \<open>Concrete inputs\<close>

text \<open>
  A configuration, an environment in which every collaborator succeeds, a server as
  \<open>NewServer\<close> leaves it, and a world with enough random bytes for one login.
\<close>

definition idx0 :: IDX where
  "idx0 = \<lparr>Issuer = ''https://idp.example.com/oauth2/default'', ClientID = ''cid'',
           ClientSecret = ''secret'', Scopes = [''openid'', ''profile''],
           RedirectURI = ''http://localhost:8000/login/callback''\<rparr>"

definition exchange0 :: Exchange where
  "exchange0 = \<lparr>Error = [], ErrorDescription = [], AccessToken = ''at'',
                 TokenType = ''Bearer'', ExpiresIn = 3600, Scope = ''openid profile'',
                 IdToken = ''idtok''\<rparr>"

definition env0 :: Env where
  "env0 = \<lparr>client_Do = (\<lambda>req. (Some \<lparr>Status = ''200 OK'', Body = ''tokens'',
                                         BodyErr = None\<rparr>, None)),
           NewRequest_err = (\<lambda>url. None),
           VerifyIdToken = (\<lambda>jv t. if t = ''idtok'' then (Some [(''aud'', ''cid'')], None)
                                    else (None, Some ''token is not valid'')),
           Unmarshal_Exchange = (\<lambda>body. Inr exchange0),
           Unmarshal_handle = (\<lambda>body. Inr ''ih-123''),
           sha256_Sum = (\<lambda>b. replicate 32 (CHR 0x00)),
           Values_Encode = (\<lambda>v. concat (map (\<lambda>kv. fst kv @ ''='' @ snd kv @ ''&'') v)),
           url_Parse = (\<lambda>u. Inr (''https'', ''idp.example.com'')),
           tpl_Execute = (\<lambda>n d. None)\<rparr>"

definition server0 :: Server where
  "server0 = \<lparr>idxConfig = idx0, cache = Map.empty, pkce = None,
              state = ''00112233445566778899aabbccddeeff'', interactionHandle = []\<rparr>"

definition world0 :: World where
  "world0 = \<lparr>entropy = replicate 118 (CHR ''a''), clock = 1000, sent = [], logs = [],
             out = []\<rparr>"

definition request0 :: Request where
  "request0 = \<lparr>query = [], session = \<lparr>ID = ''A'', Values = Map.empty\<rparr>, sessionErr = None\<rparr>"

text \<open>
  A callback that passes every check of \<open>LoginCallbackHandler\<close> before the exchange,
  and the cache after a successful exchange for session \<open>A\<close> at time 1000.
\<close>

definition requestOK :: Request where
  "requestOK =
     \<lparr>query = [(''state'', ''00112233445566778899aabbccddeeff''), (''interaction_code'', ''ic-1'')],
      session = \<lparr>ID = ''A'',
                 Values = [''pkce_code_verifier'' \<mapsto> VString ''ver'',
                           ''pkce_code_challenge'' \<mapsto> VString ''chal'',
                           ''pkce_code_challenge_method'' \<mapsto> VString ''S256'']\<rparr>,
      sessionErr = None\<rparr>"

definition tokenCache :: Cache where
  "tokenCache = [''A-id_token'' \<mapsto> (''idtok'', 3600000001000),
                 ''A-access_token'' \<mapsto> (''at'', 3600000001000)]"

text \<open>
  A token endpoint that answers 200 with a body that carries an error and tokens, and one
  whose error body carries no tokens.
\<close>

definition errorBody :: string where
  \<open>errorBody = ''{"error":"invalid_grant","error_description":"bad code","id_token":"idtok","access_token":"at"}''\<close>

definition errorExchange :: Exchange where
  "errorExchange = \<lparr>Error = ''invalid_grant'', ErrorDescription = ''bad code'',
                     AccessToken = ''at'', TokenType = [], ExpiresIn = 0, Scope = [],
                     IdToken = ''idtok''\<rparr>"

definition envError :: Env where
  "envError = env0\<lparr>client_Do := (\<lambda>req. (Some \<lparr>Status = ''200 OK'', Body = errorBody,
                                                  BodyErr = None\<rparr>, None)),
                    Unmarshal_Exchange := (\<lambda>body. if body = errorBody then Inr errorExchange
                                                  else Inl ''invalid character'')\<rparr>"

definition errorOnlyBody :: string where
  \<open>errorOnlyBody = ''{"error":"invalid_grant","error_description":"bad code"}''\<close>

definition errorOnlyExchange :: Exchange where
  "errorOnlyExchange = \<lparr>Error = ''invalid_grant'', ErrorDescription = ''bad code'',
                         AccessToken = [], TokenType = [], ExpiresIn = 0, Scope = [],
                         IdToken = []\<rparr>"

definition envErrorOnly :: Env where
  "envErrorOnly = env0\<lparr>client_Do := (\<lambda>req. (Some \<lparr>Status = ''200 OK'', Body = errorOnlyBody,
                                                      BodyErr = None\<rparr>, None)),
                        Unmarshal_Exchange := (\<lambda>body. if body = errorOnlyBody
                                                      then Inr errorOnlyExchange
                                                      else Inl ''invalid character'')\<rparr>"

text \<open>
  A server after an earlier login whose PKCE data sit in the session of \<open>requestOK\<close>,
  the login request of that browser, the server after the login of \<open>request0\<close> in
  \<open>world0\<close>, and a world with other random bytes.
\<close>

definition serverP :: Server where
  "serverP = server0\<lparr>pkce := Some \<lparr>CodeVerifier = ''ver'', CodeChallenge = ''chal'',
                                      CodeChallengeMethod = ''S256''\<rparr>,
                      interactionHandle := ''ih-123''\<rparr>"

definition loginRequest :: Request where
  "loginRequest = requestOK\<lparr>query := []\<rparr>"

definition freshPKCE :: PKCE where
  "freshPKCE = \<lparr>CodeVerifier = base64_EncodeToString False (replicate 86 (CHR ''a'')),
                 CodeChallenge = base64_EncodeToString False (replicate 32 (CHR 0x00)),
                 CodeChallengeMethod = ''S256''\<rparr>"

definition serverFirst :: Server where
  "serverFirst = server0\<lparr>pkce := Some freshPKCE, interactionHandle := ''ih-123''\<rparr>"

definition world1 :: World where
  "world1 = world0\<lparr>entropy := replicate 118 (CHR ''b'')\<rparr>"

text \<open>
  A server whose cache holds the tokens of the sessions \<open>A\<close> and \<open>B\<close>, a request of
  session \<open>B\<close>, an identity provider that cannot be reached, and a request whose
  session cookie the store cannot decode.
\<close>

definition cacheAB :: Cache where
  "cacheAB = tokenCache(''B-id_token'' \<mapsto> (''idtokB'', 3600000002000),
                        ''B-access_token'' \<mapsto> (''atB'', 3600000002000))"

definition serverAB :: Server where
  "serverAB = server0\<lparr>cache := cacheAB\<rparr>"

definition requestB :: Request where
  "requestB = \<lparr>query = [], session = \<lparr>ID = ''B'', Values = Map.empty\<rparr>, sessionErr = None\<rparr>"

definition envDown :: Env where
  "envDown = env0\<lparr>client_Do := (\<lambda>req. (None, Some ''dial tcp: connection refused''))\<rparr>"

definition requestBroken :: Request where
  "requestBroken = request0\<lparr>sessionErr := Some ''securecookie: the value is not valid''\<rparr>"

section \<open>The endpoint rule as the specification words it\<close>

text \<open>
  Claim C9 speaks of an issuer that contains an OAuth2 segment. Read literally, the issuer
  split at \<open>/\<close> has a segment equal to \<open>oauth2\<close>; \<open>spec_oAuthEndPoint\<close> is the
  rule with that condition, to be compared with \<open>oAuthEndPoint\<close>. \<open>serverHost\<close>
  is a server whose issuer has the text in its host name only.
\<close>

fun splitOn :: "char \<Rightarrow> string \<Rightarrow> string list" where
  "splitOn c [] = [[]]"
| "splitOn c (x # xs) =
     (if x = c then [] # splitOn c xs
      else (case splitOn c xs of [] \<Rightarrow> [[x]] | y # ys \<Rightarrow> (x # y) # ys))"

definition spec_hasOAuth2Segment :: "string \<Rightarrow> bool" where
  "spec_hasOAuth2Segment issuer = (''oauth2'' \<in> set (splitOn (CHR ''/'') issuer))"

definition spec_oAuthEndPoint :: "string \<Rightarrow> string \<Rightarrow> string" where
  "spec_oAuthEndPoint issuer operation =
     (if spec_hasOAuth2Segment issuer then issuer @ ''/v1/'' @ operation
      else issuer @ ''/oauth2/v1/'' @ operation)"

definition serverHost :: Server where
  "serverHost = server0\<lparr>idxConfig := idx0\<lparr>Issuer := ''https://oauth2corp.example.com''\<rparr>\<rparr>"

section \<open>Properties\<close>

subsection \<open>Library facts\<close>

lemmas login_defs = LoginHandler_def LoginHandler_page_def Let_def writeW_def printf_def Do_def
  isNilOrEmpty_def createPKCEData_def createCodeVerifier_def rand_Read_def generateNonce_def
  getInteractionHandle_def http_NewRequest_def Header_Add_def isAuthenticated_def cache_Get_def

lemmas fixture_defs = env0_def server0_def world0_def request0_def idx0_def

lemma strings_Contains_sublist: "strings_Contains s sub \<longleftrightarrow> sublist sub s"
  by (induction s) (auto simp: sublist_Cons_right)

lemma strings_Contains_iff:
  "strings_Contains s sub \<longleftrightarrow> (\<exists>pre post. s = pre @ sub @ post)"
  by (simp add: strings_Contains_sublist sublist_def)

lemma encodeURL_length: "length encodeURL = 64"
  by (simp add: encodeURL_def)

lemma encodeURL_nth: "n < 64 \<Longrightarrow> encodeURL ! n \<in> set encodeURL"
  by (simp add: encodeURL_length)

lemma encodeURL_no_pad: "CHR ''='' \<notin> set encodeURL"
  by (simp add: encodeURL_def)

lemma raw_alphabet: "set (base64_EncodeToString False src) \<subseteq> set encodeURL"
  by (induction "False" src rule: base64_EncodeToString.induct)
     (simp_all add: Let_def encodeURL_nth)

lemma raw_length: "length (base64_EncodeToString False src) = (4 * length src + 2) div 3"
  by (induction "False" src rule: base64_EncodeToString.induct) (simp_all add: Let_def)

lemma rand_Read_ok:
  "rand_Read n w = ((b, None), w1) \<Longrightarrow>
     length b = n \<and> b = take n (entropy w) \<and> w1 = w\<lparr>entropy := drop n (entropy w)\<rparr>"
  by (auto simp: rand_Read_def split: if_splits)

subsection \<open>The padded and the raw encoding are injective\<close>

lemma encodeURL_distinct: "distinct encodeURL"
  by (simp add: encodeURL_def)

lemma encodeURL_inj: "i < 64 \<Longrightarrow> j < 64 \<Longrightarrow> encodeURL ! i = encodeURL ! j \<longleftrightarrow> i = j"
  using nth_eq_iff_index_eq [OF encodeURL_distinct, of i j] by (simp add: encodeURL_length)

lemma encodeURL_not_pad: "i < 64 \<Longrightarrow> encodeURL ! i \<noteq> CHR ''=''"
  using encodeURL_nth [of i] encodeURL_no_pad by metis

lemma sextets_eq:
  fixes v v' :: nat
  assumes s1: "v div 262144 mod 64 = v' div 262144 mod 64"
    and s2: "v div 4096 mod 64 = v' div 4096 mod 64"
    and s3: "v div 64 mod 64 = v' div 64 mod 64"
    and s4: "v mod 64 = v' mod 64"
    and b: "v < 16777216" and b': "v' < 16777216"
  shows "v = v'"
proof -
  have d2: "\<And>x::nat. x div 4096 = x div 64 div 64"
    by (simp add: div_mult2_eq)
  have d3: "\<And>x::nat. x div 262144 = x div 4096 div 64"
    by (simp add: div_mult2_eq)
  from b have "v div 262144 < 64" by simp
  moreover from b' have "v' div 262144 < 64" by simp
  ultimately have e3: "v div 262144 = v' div 262144"
    using s1 by simp
  have "v div 4096 = (v div 4096 div 64) * 64 + v div 4096 mod 64" by simp
  moreover have "v' div 4096 = (v' div 4096 div 64) * 64 + v' div 4096 mod 64" by simp
  ultimately have e2: "v div 4096 = v' div 4096"
    using e3 s2 by (simp only: d3)
  have "v div 64 = (v div 64 div 64) * 64 + v div 64 mod 64" by simp
  moreover have "v' div 64 = (v' div 64 div 64) * 64 + v' div 64 mod 64" by simp
  ultimately have e1: "v div 64 = v' div 64"
    using e2 s3 by (simp only: d2)
  have "v = (v div 64) * 64 + v mod 64" by simp
  moreover have "v' = (v' div 64) * 64 + v' mod 64" by simp
  ultimately show ?thesis
    using e1 s4 by simp
qed

lemma bytes3_eq:
  fixes a b c a' b' c' :: nat
  assumes eq: "a * 65536 + b * 256 + c = a' * 65536 + b' * 256 + c'"
    and bd: "c < 256" "b < 256" "c' < 256" "b' < 256"
  shows "a = a' \<and> b = b' \<and> c = c'"
proof -
  have m: "\<And>x y z::nat. z < 256 \<Longrightarrow> (x * 65536 + y * 256 + z) mod 256 = z"
    by (simp add: mod_add_left_eq [symmetric] mod_mult_left_eq)
  have d: "\<And>x y z::nat. z < 256 \<Longrightarrow> (x * 65536 + y * 256 + z) div 256 = x * 256 + y"
    by simp
  have m2: "\<And>x y::nat. y < 256 \<Longrightarrow> (x * 256 + y) mod 256 = y"
    by simp
  from m [of c a b] m [of c' a' b'] bd eq have c: "c = c'" by simp
  from d [of c a b] d [of c' a' b'] bd eq have ab: "a * 256 + b = a' * 256 + b'" by simp
  from m2 [of b a] m2 [of b' a'] bd ab have b: "b = b'" by simp
  with ab c show ?thesis by simp
qed

lemma group_inj:
  fixes a b c a' b' c' :: char
  assumes "v = (of_char a :: nat) * 65536 + of_char b * 256 + of_char c"
    and "v' = (of_char a' :: nat) * 65536 + of_char b' * 256 + of_char c'"
    and "encodeURL ! (v div 262144 mod 64) = encodeURL ! (v' div 262144 mod 64)"
    and "encodeURL ! (v div 4096 mod 64) = encodeURL ! (v' div 4096 mod 64)"
    and "encodeURL ! (v div 64 mod 64) = encodeURL ! (v' div 64 mod 64)"
    and "encodeURL ! (v mod 64) = encodeURL ! (v' mod 64)"
  shows "a = a' \<and> b = b' \<and> c = c'"
proof -
  have bd: "\<And>x::char. (of_char x :: nat) < 256" by simp
  have "(of_char a :: nat) \<le> 255" "(of_char b :: nat) \<le> 255" "(of_char c :: nat) \<le> 255"
    using bd [of a] bd [of b] bd [of c] by linarith+
  then have v: "v < 16777216" unfolding assms(1) by linarith
  have "(of_char a' :: nat) \<le> 255" "(of_char b' :: nat) \<le> 255" "(of_char c' :: nat) \<le> 255"
    using bd [of a'] bd [of b'] bd [of c'] by linarith+
  then have v': "v' < 16777216" unfolding assms(2) by linarith
  have "v = v'"
    using assms(3-6) by (intro sextets_eq [OF _ _ _ _ v v']) (simp_all add: encodeURL_inj)
  then have "(of_char a :: nat) = of_char a' \<and> (of_char b :: nat) = of_char b' \<and> (of_char c :: nat) = of_char c'"
    unfolding assms(1,2) by (intro bytes3_eq) (simp_all add: bd)
  then show ?thesis by simp
qed



lemma tail_sextets:
  fixes x y :: nat
  shows "(x * 65536) div 64 mod 64 = 0" "(x * 65536) mod 64 = 0"
    "(x * 65536 + y * 256) mod 64 = 0"
proof -
  have "x * 65536 = (x * 1024) * 64" by simp
  then show "(x * 65536) mod 64 = 0" by (metis mod_mult_self2_is_0)
  have "(x * 65536) div 64 = (x * 16) * 64" by simp
  then show "(x * 65536) div 64 mod 64 = 0" by (metis mod_mult_self2_is_0)
  have "x * 65536 + y * 256 = (x * 1024 + y * 4) * 64" by simp
  then show "(x * 65536 + y * 256) mod 64 = 0" by (metis mod_mult_self2_is_0)
qed

lemma base64_inj:
  "length xs = length ys \<Longrightarrow>
   base64_EncodeToString pad xs = base64_EncodeToString pad ys \<Longrightarrow> xs = ys"
proof (induction pad xs arbitrary: ys rule: base64_EncodeToString.induct)
  case (1 pad)
  then show ?case by simp
next
  case (2 pad a)
  then obtain a' where ys: "ys = [a']"
    by (cases ys) auto
  from 2 have "a = a' \<and> CHR 0x00 = CHR 0x00 \<and> CHR 0x00 = CHR 0x00"
    by (intro group_inj [OF refl refl]) (simp_all add: ys Let_def tail_sextets)
  then show ?case by (simp add: ys)
next
  case (3 pad a b)
  then obtain a' b' where ys: "ys = [a', b']"
    by (cases ys; cases "tl ys") auto
  from 3 have "a = a' \<and> b = b' \<and> CHR 0x00 = CHR 0x00"
    by (intro group_inj [OF refl refl]) (simp_all add: ys Let_def tail_sextets)
  then show ?case by (simp add: ys)
next
  case (4 pad a b c rest)
  then obtain a' b' c' rest' where ys: "ys = a' # b' # c' # rest'"
    by (cases ys; cases "tl ys"; cases "tl (tl ys)") auto
  from 4(2,3) have len: "length rest = length rest'"
    and hd: "encodeURL ! (((of_char a :: nat) * 65536 + of_char b * 256 + of_char c) div 262144 mod 64)
             = encodeURL ! (((of_char a' :: nat) * 65536 + of_char b' * 256 + of_char c') div 262144 mod 64)"
       "encodeURL ! (((of_char a :: nat) * 65536 + of_char b * 256 + of_char c) div 4096 mod 64)
             = encodeURL ! (((of_char a' :: nat) * 65536 + of_char b' * 256 + of_char c') div 4096 mod 64)"
       "encodeURL ! (((of_char a :: nat) * 65536 + of_char b * 256 + of_char c) div 64 mod 64)
             = encodeURL ! (((of_char a' :: nat) * 65536 + of_char b' * 256 + of_char c') div 64 mod 64)"
       "encodeURL ! (((of_char a :: nat) * 65536 + of_char b * 256 + of_char c) mod 64)
             = encodeURL ! (((of_char a' :: nat) * 65536 + of_char b' * 256 + of_char c') mod 64)"
    and tl: "base64_EncodeToString pad rest = base64_EncodeToString pad rest'"
    by (simp_all add: ys Let_def)
  from hd have "a = a' \<and> b = b' \<and> c = c'"
    by (intro group_inj [OF refl refl])
  moreover from 4(1) [OF len tl] have "rest = rest'" .
  ultimately show ?case by (simp add: ys)
qed

subsection \<open>Worlds after the helpers of the login\<close>

lemma rand_Read_append:
  "length a = n \<Longrightarrow> entropy w = a @ b \<Longrightarrow> rand_Read n w = ((a, None), w\<lparr>entropy := b\<rparr>)"
  by (simp add: rand_Read_def)

lemma getInteractionHandle_world:
  "getInteractionHandle env s c w = Ret x w1 \<Longrightarrow>
     out w1 = out w \<and> entropy w1 = entropy w \<and> clock w1 = clock w"
  by (auto simp: getInteractionHandle_def Let_def Do_def printf_def
           split: sum.splits option.splits prod.splits)

lemma createPKCEData_world:
  "createPKCEData env w = (Inr p, w1) \<Longrightarrow>
     86 \<le> length (entropy w) \<and> w1 = w\<lparr>entropy := drop 86 (entropy w)\<rparr>"
  by (auto simp: createPKCEData_def createCodeVerifier_def rand_Read_def Let_def
           split: prod.splits option.splits sum.splits if_splits)

lemma pages_writeW:
  "pages (writeW a w) = pages w @ (case pageOf a of None \<Rightarrow> [] | Some d \<Rightarrow> [d])"
  by (simp add: pages_def writeW_def map_filter_def split: option.splits)

lemma LoginHandler_page_Returned:
  assumes "LoginHandler_page env s r w = Returned s' w'"
  shows "state s' = state s \<and> pkce s' = pkce s \<and> cache s' = cache s
       \<and> idxConfig s' = idxConfig s
       \<and> 32 \<le> length (entropy w) \<and> entropy w' = drop 32 (entropy w)
       \<and> (\<exists>d. pages w' = pages w @ [d] \<and> State d = state s
              \<and> Nonce d = Some (base64_EncodeToString True (take 32 (entropy w))))"
  using assms
  by (auto simp: LoginHandler_page_def generateNonce_def rand_Read_def Let_def printf_def
                 pages_def writeW_def map_filter_def
           split: prod.splits option.splits res.splits sum.splits if_splits
           dest!: getInteractionHandle_world)

subsection \<open>Endpoint resolution\<close>

text \<open>
  C9, as stated, fails: an issuer whose host name holds the text \<open>oauth2\<close> and that
  has no OAuth2 segment is resolved to \<open>{issuer}/v1/{op}\<close>, where the rule with the
  segment condition gives \<open>{issuer}/oauth2/v1/{op}\<close>.
\<close>

theorem oAuthEndPoint_segment_counterexample:
  "\<not> spec_hasOAuth2Segment (Issuer (idxConfig serverHost))
   \<and> spec_oAuthEndPoint (Issuer (idxConfig serverHost)) ''token''
       = ''https://oauth2corp.example.com/oauth2/v1/token''
   \<and> oAuthEndPoint serverHost ''token'' = ''https://oauth2corp.example.com/v1/token''"
  by (simp add: spec_hasOAuth2Segment_def spec_oAuthEndPoint_def serverHost_def idx0_def
        server0_def oAuthEndPoint_def)

text \<open>
  C9, amended. For every operation name, the resolved OAuth endpoint URL is
  \<open>{issuer}/v1/{op}\<close> when the text \<open>oauth2\<close> occurs anywhere in the configured
  issuer string (as a path segment, inside a longer segment or in the host name), and
  \<open>{issuer}/oauth2/v1/{op}\<close> otherwise.
\<close>

theorem oAuthEndPoint_url:
  "oAuthEndPoint s operation =
     (if (\<exists>pre post. Issuer (idxConfig s) = pre @ ''oauth2'' @ post)
      then Issuer (idxConfig s) @ ''/v1/'' @ operation
      else Issuer (idxConfig s) @ ''/oauth2/v1/'' @ operation)"
  by (simp add: oAuthEndPoint_def Let_def strings_Contains_iff)

theorem oAuthEndPoint_url_witness:
  "oAuthEndPoint server0 ''token'' = ''https://idp.example.com/oauth2/default/v1/token''
   \<and> oAuthEndPoint (server0\<lparr>idxConfig := idx0\<lparr>Issuer := ''https://idp.example.com''\<rparr>\<rparr>) ''token''
       = ''https://idp.example.com/oauth2/v1/token''
   \<and> oAuthEndPoint serverHost ''revoke'' = ''https://oauth2corp.example.com/v1/revoke''"
proof -
  have "Issuer (idxConfig server0) = ''https://idp.example.com/'' @ ''oauth2'' @ ''/default''"
    by (simp add: server0_def idx0_def)
  then have yes: "\<exists>pre post. Issuer (idxConfig server0) = pre @ ''oauth2'' @ post"
    by blast
  have "Issuer (idxConfig serverHost) = ''https://'' @ ''oauth2'' @ ''corp.example.com''"
    by (simp add: serverHost_def idx0_def)
  then have host: "\<exists>pre post. Issuer (idxConfig serverHost) = pre @ ''oauth2'' @ post"
    by blast
  have "\<not> strings_Contains ''https://idp.example.com'' ''oauth2''"
    by simp
  then have no: "\<not> (\<exists>pre post. Issuer (idxConfig (server0\<lparr>idxConfig :=
                     idx0\<lparr>Issuer := ''https://idp.example.com''\<rparr>\<rparr>)) = pre @ ''oauth2'' @ post)"
    by (simp add: strings_Contains_iff)
  show ?thesis
    using yes no host oAuthEndPoint_url [of server0 "''token''"]
      oAuthEndPoint_url [of "server0\<lparr>idxConfig := idx0\<lparr>Issuer := ''https://idp.example.com''\<rparr>\<rparr>"
         "''token''"]
      oAuthEndPoint_url [of serverHost "''revoke''"]
    by (simp add: server0_def idx0_def serverHost_def)
qed

subsection \<open>The callback\<close>

text \<open>
  C2. For every callback request whose \<open>state\<close> query parameter does not equal the
  stored state, the handler aborts: it writes the mismatch message and returns with the
  server unchanged, and no outbound request (so no code-for-token exchange) is made.
\<close>

theorem callback_state_mismatch:
  assumes "Values_Get (query r) ''state'' \<noteq> state s"
  shows "LoginCallbackHandler env s r w =
           Returned s (w\<lparr>out := out w @ [Fprintln ''The state was not as expected'']\<rparr>)
       \<and> sent (worldOf (LoginCallbackHandler env s r w)) = sent w"
  using assms by (simp add: LoginCallbackHandler_def writeW_def)

theorem callback_state_mismatch_witness:
  "Values_Get (query (request0\<lparr>query := [(''state'', ''forged''), (''interaction_code'', ''ic-1'')]\<rparr>))
       ''state'' \<noteq> state server0
   \<and> LoginCallbackHandler env0 server0
        (request0\<lparr>query := [(''state'', ''forged''), (''interaction_code'', ''ic-1'')]\<rparr>) world0 =
       Returned server0 (world0\<lparr>out := [Fprintln ''The state was not as expected'']\<rparr>)"
proof -
  have h: "Values_Get (query (request0\<lparr>query := [(''state'', ''forged''),
              (''interaction_code'', ''ic-1'')]\<rparr>)) ''state'' \<noteq> state server0"
    by (simp add: Values_Get_def server0_def)
  show ?thesis
    using h callback_state_mismatch [OF h, of env0 world0] by (simp add: world0_def)
qed

subsection \<open>PKCE data\<close>

text \<open>
  C6. For every PKCE pair the generator produces, the code challenge is the base64url
  encoding without padding of the SHA-256 hash of the code verifier, it holds no padding
  character, the challenge method is \<open>S256\<close>, and the encoded verifier consists of at
  least 43 characters of the base64url alphabet.
\<close>

theorem createPKCEData_pair:
  assumes "createPKCEData env w = (Inr p, w1)"
  shows "CodeChallenge p = base64_EncodeToString False (sha256_Sum env (CodeVerifier p))
       \<and> CHR ''='' \<notin> set (CodeChallenge p)
       \<and> CodeChallengeMethod p = ''S256''
       \<and> 43 \<le> length (CodeVerifier p)
       \<and> set (CodeVerifier p) \<subseteq> set encodeURL"
proof -
  from assms obtain b w0 where rd: "rand_Read 86 w = ((b, None), w0)"
    and p: "p = \<lparr>CodeVerifier = base64_EncodeToString False b,
                 CodeChallenge = base64_EncodeToString False
                                   (sha256_Sum env (base64_EncodeToString False b)),
                 CodeChallengeMethod = ''S256''\<rparr>"
    by (auto simp: createPKCEData_def createCodeVerifier_def Let_def
             split: prod.splits option.splits sum.splits)
  from rd have "length b = 86"
    by (simp add: rand_Read_ok)
  then have len: "length (CodeVerifier p) = 115"
    by (simp add: p raw_length)
  have "CHR ''='' \<notin> set (CodeChallenge p)"
    using raw_alphabet encodeURL_no_pad by (auto simp: p)
  with len show ?thesis
    using raw_alphabet by (simp add: p)
qed

theorem createPKCEData_pair_witness:
  "createPKCEData env0 world0 =
     (Inr \<lparr>CodeVerifier = base64_EncodeToString False (replicate 86 (CHR ''a'')),
           CodeChallenge = base64_EncodeToString False (replicate 32 (CHR 0x00)),
           CodeChallengeMethod = ''S256''\<rparr>,
      world0\<lparr>entropy := replicate 32 (CHR ''a'')\<rparr>)
   \<and> 43 \<le> length (base64_EncodeToString False (replicate 86 (CHR ''a'')))
   \<and> CHR ''='' \<notin> set (base64_EncodeToString False (replicate 32 (CHR 0x00)))"
proof -
  have h: "createPKCEData env0 world0 =
     (Inr \<lparr>CodeVerifier = base64_EncodeToString False (replicate 86 (CHR ''a'')),
           CodeChallenge = base64_EncodeToString False (replicate 32 (CHR 0x00)),
           CodeChallengeMethod = ''S256''\<rparr>,
      world0\<lparr>entropy := replicate 32 (CHR ''a'')\<rparr>)"
    by (simp add: createPKCEData_def createCodeVerifier_def rand_Read_def env0_def
                  world0_def Let_def)
  show ?thesis
    using h createPKCEData_pair [OF h] by (simp add: env0_def)
qed

lemmas callback_defs = LoginCallbackHandler_def Let_def writeW_def printf_def Do_def

lemma callback_server_change:
  assumes "serverOf (LoginCallbackHandler env s r w) = Some s'" and "s' \<noteq> s"
  shows "\<exists>v req0 resp exchange jwt.
           Values (session r) ''pkce_code_verifier'' = Some (VString v)
         \<and> http_NewRequest env ''POST'' (tokenURL env s r v) [] = Inr req0
         \<and> client_Do env (Header_Add req0 ''Content-Type'' ''application/x-www-form-urlencoded'')
             = (Some resp, None)
         \<and> BodyErr resp = None
         \<and> Unmarshal_Exchange env (Body resp) = Inr exchange
         \<and> verifyToken env s (IdToken exchange) = Inr jwt
         \<and> s' = s\<lparr>cache :=
              cache_Add (clock w)
                (cache_Add (clock w) (cache s) (ID (session r) @ ''-id_token'')
                   (IdToken exchange) time_Hour)
                (ID (session r) @ ''-access_token'') (AccessToken exchange) time_Hour\<rparr>
         \<and> (\<exists>w'. LoginCallbackHandler env s r w = Returned s' w')"
  using assms
  by (auto simp: callback_defs
           split: if_splits sum.splits option.splits prod.splits session_value.splits)

lemma callback_outcome_saved:
  assumes "LoginCallbackHandler env s r w = oc"
  shows "saved (worldOf oc) = saved w"
  using assms
  by (auto simp: callback_defs saved_def map_filter_def
           split: if_splits sum.splits option.splits prod.splits session_value.splits)

lemma callback_verification_failure:
  assumes "Values_Get (query r) ''state'' = state s"
    and "Values_Get (query r) ''error'' \<noteq> ''interaction_required''"
    and "Values_Get (query r) ''interaction_code'' \<noteq> []"
    and "Values (session r) ''pkce_code_verifier'' = Some (VString v)"
    and "\<not> isNilOrEmpty (Values (session r) ''pkce_code_verifier'')"
    and "\<not> isNilOrEmpty (Values (session r) ''pkce_code_challenge'')"
    and "\<not> isNilOrEmpty (Values (session r) ''pkce_code_challenge_method'')"
    and "http_NewRequest env ''POST'' (tokenURL env s r v) [] = Inr req0"
    and "client_Do env (Header_Add req0 ''Content-Type'' ''application/x-www-form-urlencoded'')
           = (Some resp, None)"
    and "BodyErr resp = None"
    and "Unmarshal_Exchange env (Body resp) = Inr exchange"
    and "verifyToken env s (IdToken exchange) = Inl e"
  shows "\<exists>w'. LoginCallbackHandler env s r w = Exit w'
            \<and> logs w' = logs w @ [''Verification Error: '' @ e]"
  using assms
  by (auto simp: callback_defs split: sum.splits option.splits)

text \<open>
  C1. For every callback request, tokens are stored in the Token Cache (and the session
  thereby becomes authenticated) only after identity-token verification succeeds, and a
  verification failure never leaves a session marked authenticated. In four parts: the
  handler never saves a session, so it writes no \<open>id_token\<close> into session values;
  whenever the server object after the handler, returned or panicked, differs from the
  one before, the handler has exchanged the code, \<open>verifyToken\<close> has accepted the
  identity token of the response, the handler returned, and the only change is the two
  cache additions; when the handler reaches the verification and \<open>verifyToken\<close>
  rejects the token, the process ends in \<open>log.Fatalf\<close> with no session saved; and a
  request that \<open>isAuthenticated\<close> accepts after the handler and not before implies
  an accepted identity token.
\<close>

theorem callback_caches_only_verified:
  "saved (worldOf (LoginCallbackHandler env s r w)) = saved w
   \<and> (\<forall>s'. serverOf (LoginCallbackHandler env s r w) = Some s' \<and> s' \<noteq> s \<longrightarrow>
         (\<exists>v req0 resp exchange jwt.
             Values (session r) ''pkce_code_verifier'' = Some (VString v)
           \<and> http_NewRequest env ''POST'' (tokenURL env s r v) [] = Inr req0
           \<and> client_Do env
                (Header_Add req0 ''Content-Type'' ''application/x-www-form-urlencoded'')
               = (Some resp, None)
           \<and> BodyErr resp = None
           \<and> Unmarshal_Exchange env (Body resp) = Inr exchange
           \<and> verifyToken env s (IdToken exchange) = Inr jwt
           \<and> s' = s\<lparr>cache :=
                cache_Add (clock w)
                  (cache_Add (clock w) (cache s) (ID (session r) @ ''-id_token'')
                     (IdToken exchange) time_Hour)
                  (ID (session r) @ ''-access_token'') (AccessToken exchange) time_Hour\<rparr>
           \<and> (\<exists>w'. LoginCallbackHandler env s r w = Returned s' w')))
   \<and> (\<forall>v req0 resp exchange e.
           Values_Get (query r) ''state'' = state s
         \<and> Values_Get (query r) ''error'' \<noteq> ''interaction_required''
         \<and> Values_Get (query r) ''interaction_code'' \<noteq> []
         \<and> Values (session r) ''pkce_code_verifier'' = Some (VString v)
         \<and> \<not> isNilOrEmpty (Values (session r) ''pkce_code_verifier'')
         \<and> \<not> isNilOrEmpty (Values (session r) ''pkce_code_challenge'')
         \<and> \<not> isNilOrEmpty (Values (session r) ''pkce_code_challenge_method'')
         \<and> http_NewRequest env ''POST'' (tokenURL env s r v) [] = Inr req0
         \<and> client_Do env
              (Header_Add req0 ''Content-Type'' ''application/x-www-form-urlencoded'')
             = (Some resp, None)
         \<and> BodyErr resp = None
         \<and> Unmarshal_Exchange env (Body resp) = Inr exchange
         \<and> verifyToken env s (IdToken exchange) = Inl e \<longrightarrow>
         (\<exists>w'. LoginCallbackHandler env s r w = Exit w'
              \<and> logs w' = logs w @ [''Verification Error: '' @ e]
              \<and> saved w' = saved w))
   \<and> (\<forall>s' r2 w2. serverOf (LoginCallbackHandler env s r w) = Some s'
         \<and> isAuthenticated s' r2 w2 \<and> \<not> isAuthenticated s r2 w2 \<longrightarrow>
         (\<exists>(exchange :: Exchange) jwt. verifyToken env s (IdToken exchange) = Inr jwt
            \<and> s' = s\<lparr>cache :=
                cache_Add (clock w)
                  (cache_Add (clock w) (cache s) (ID (session r) @ ''-id_token'')
                     (IdToken exchange) time_Hour)
                  (ID (session r) @ ''-access_token'') (AccessToken exchange) time_Hour\<rparr>))"
proof (intro conjI allI impI)
  show "saved (worldOf (LoginCallbackHandler env s r w)) = saved w"
    by (rule callback_outcome_saved [OF refl])
next
  fix s'
  assume "serverOf (LoginCallbackHandler env s r w) = Some s' \<and> s' \<noteq> s"
  then show "\<exists>v req0 resp exchange jwt.
             Values (session r) ''pkce_code_verifier'' = Some (VString v)
           \<and> http_NewRequest env ''POST'' (tokenURL env s r v) [] = Inr req0
           \<and> client_Do env
                (Header_Add req0 ''Content-Type'' ''application/x-www-form-urlencoded'')
               = (Some resp, None)
           \<and> BodyErr resp = None
           \<and> Unmarshal_Exchange env (Body resp) = Inr exchange
           \<and> verifyToken env s (IdToken exchange) = Inr jwt
           \<and> s' = s\<lparr>cache :=
                cache_Add (clock w)
                  (cache_Add (clock w) (cache s) (ID (session r) @ ''-id_token'')
                     (IdToken exchange) time_Hour)
                  (ID (session r) @ ''-access_token'') (AccessToken exchange) time_Hour\<rparr>
           \<and> (\<exists>w'. LoginCallbackHandler env s r w = Returned s' w')"
    using callback_server_change [of env s r w s'] by blast
next
  fix v req0 resp exchange e
  assume a: "Values_Get (query r) ''state'' = state s
         \<and> Values_Get (query r) ''error'' \<noteq> ''interaction_required''
         \<and> Values_Get (query r) ''interaction_code'' \<noteq> []
         \<and> Values (session r) ''pkce_code_verifier'' = Some (VString v)
         \<and> \<not> isNilOrEmpty (Values (session r) ''pkce_code_verifier'')
         \<and> \<not> isNilOrEmpty (Values (session r) ''pkce_code_challenge'')
         \<and> \<not> isNilOrEmpty (Values (session r) ''pkce_code_challenge_method'')
         \<and> http_NewRequest env ''POST'' (tokenURL env s r v) [] = Inr req0
         \<and> client_Do env
              (Header_Add req0 ''Content-Type'' ''application/x-www-form-urlencoded'')
             = (Some resp, None)
         \<and> BodyErr resp = None
         \<and> Unmarshal_Exchange env (Body resp) = Inr exchange
         \<and> verifyToken env s (IdToken exchange) = Inl e"
  then obtain w' where x: "LoginCallbackHandler env s r w = Exit w'"
      "logs w' = logs w @ [''Verification Error: '' @ e]"
    using callback_verification_failure [of r s v env req0 resp exchange e w] by blast
  from callback_outcome_saved [OF x(1)] have "saved w' = saved w"
    by simp
  with x show "\<exists>w'. LoginCallbackHandler env s r w = Exit w'
              \<and> logs w' = logs w @ [''Verification Error: '' @ e]
              \<and> saved w' = saved w"
    by blast
next
  fix s' r2 w2
  assume a: "serverOf (LoginCallbackHandler env s r w) = Some s'
         \<and> isAuthenticated s' r2 w2 \<and> \<not> isAuthenticated s r2 w2"
  then have ne: "s' \<noteq> s" and sv: "serverOf (LoginCallbackHandler env s r w) = Some s'"
    by auto
  from callback_server_change [OF sv ne]
  show "\<exists>(exchange :: Exchange) jwt. verifyToken env s (IdToken exchange) = Inr jwt
            \<and> s' = s\<lparr>cache :=
                cache_Add (clock w)
                  (cache_Add (clock w) (cache s) (ID (session r) @ ''-id_token'')
                     (IdToken exchange) time_Hour)
                  (ID (session r) @ ''-access_token'') (AccessToken exchange) time_Hour\<rparr>"
    by (elim exE conjE) (intro exI conjI; assumption)
qed

theorem callback_caches_only_verified_witness:
  "serverOf (LoginCallbackHandler env0 server0 requestOK world0)
     = Some (server0\<lparr>cache := tokenCache\<rparr>)
   \<and> server0\<lparr>cache := tokenCache\<rparr> \<noteq> server0
   \<and> (\<exists>jwt. verifyToken env0 server0 ''idtok'' = Inr jwt)
   \<and> verifyToken envErrorOnly server0 (IdToken errorOnlyExchange)
       = Inl ''token is not valid; token: ''
   \<and> (\<exists>w'. LoginCallbackHandler envErrorOnly server0 requestOK world0 = Exit w'
          \<and> logs w' = [''Verification Error: token is not valid; token: '']
          \<and> saved w' = [])"
proof -
  have h1: "serverOf (LoginCallbackHandler env0 server0 requestOK world0)
              = Some (server0\<lparr>cache := tokenCache\<rparr>)"
    by (simp add: callback_defs env0_def server0_def requestOK_def world0_def Values_Get_def
          isNilOrEmpty_def http_NewRequest_def verifyToken_def exchange0_def cache_Add_def
          cache_Get_def time_Hour_def tokenCache_def)
  have "cache (server0\<lparr>cache := tokenCache\<rparr>) ''A-id_token'' \<noteq> cache server0 ''A-id_token''"
    by (simp add: server0_def tokenCache_def)
  then have h2: "server0\<lparr>cache := tokenCache\<rparr> \<noteq> server0"
    by metis
  from callback_caches_only_verified [of env0 server0 requestOK world0] h1 h2
  have ok: "\<exists>jwt. verifyToken env0 server0 ''idtok'' = Inr jwt"
    by (auto simp: env0_def exchange0_def)
  have v: "verifyToken envErrorOnly server0 (IdToken errorOnlyExchange)
             = Inl ''token is not valid; token: ''"
    by (simp add: verifyToken_def envErrorOnly_def env0_def errorOnlyExchange_def)
  have c: "Values_Get (query requestOK) ''state'' = state server0
         \<and> Values_Get (query requestOK) ''error'' \<noteq> ''interaction_required''
         \<and> Values_Get (query requestOK) ''interaction_code'' \<noteq> []
         \<and> Values (session requestOK) ''pkce_code_verifier'' = Some (VString ''ver'')
         \<and> \<not> isNilOrEmpty (Values (session requestOK) ''pkce_code_verifier'')
         \<and> \<not> isNilOrEmpty (Values (session requestOK) ''pkce_code_challenge'')
         \<and> \<not> isNilOrEmpty (Values (session requestOK) ''pkce_code_challenge_method'')
         \<and> http_NewRequest envErrorOnly ''POST''
              (tokenURL envErrorOnly server0 requestOK ''ver'') []
             = Inr \<lparr>Method = ''POST'', URL = tokenURL envErrorOnly server0 requestOK ''ver'',
                    ReqBody = [], Header = []\<rparr>
         \<and> client_Do envErrorOnly
              (Header_Add \<lparr>Method = ''POST'',
                           URL = tokenURL envErrorOnly server0 requestOK ''ver'',
                           ReqBody = [], Header = []\<rparr>
                 ''Content-Type'' ''application/x-www-form-urlencoded'')
             = (Some \<lparr>Status = ''200 OK'', Body = errorOnlyBody, BodyErr = None\<rparr>, None)
         \<and> BodyErr \<lparr>Status = ''200 OK'', Body = errorOnlyBody, BodyErr = None\<rparr> = None
         \<and> Unmarshal_Exchange envErrorOnly
              (Body \<lparr>Status = ''200 OK'', Body = errorOnlyBody, BodyErr = None\<rparr>)
             = Inr errorOnlyExchange
         \<and> verifyToken envErrorOnly server0 (IdToken errorOnlyExchange)
             = Inl ''token is not valid; token: ''"
    using v
    by (simp add: requestOK_def server0_def Values_Get_def isNilOrEmpty_def
          http_NewRequest_def envErrorOnly_def env0_def)
  from callback_caches_only_verified [of envErrorOnly server0 requestOK world0,
         THEN conjunct2, THEN conjunct2, THEN conjunct1, rule_format, OF c]
  have "\<exists>w'. LoginCallbackHandler envErrorOnly server0 requestOK world0 = Exit w'
          \<and> logs w' = [''Verification Error: token is not valid; token: '']
          \<and> saved w' = []"
    by (simp add: world0_def saved_def map_filter_def)
  with h1 h2 ok v show ?thesis
    by simp
qed

text \<open>
  C3, as stated, fails: a token response with status 200 that carries an \<open>error\<close> field
  next to an identity token the verifier accepts is treated as a success; the tokens are
  cached and the session is authenticated.
\<close>

theorem callback_error_field_counterexample:
  "client_Do envError
     (Header_Add \<lparr>Method = ''POST'', URL = tokenURL envError server0 requestOK ''ver'',
                  ReqBody = [], Header = []\<rparr>
        ''Content-Type'' ''application/x-www-form-urlencoded'')
     = (Some \<lparr>Status = ''200 OK'', Body = errorBody, BodyErr = None\<rparr>, None)
   \<and> Unmarshal_Exchange envError errorBody = Inr errorExchange
   \<and> Error errorExchange = ''invalid_grant''
   \<and> serverOf (LoginCallbackHandler envError server0 requestOK world0)
       = Some (server0\<lparr>cache := tokenCache\<rparr>)
   \<and> isAuthenticated (server0\<lparr>cache := tokenCache\<rparr>) requestOK world0"
  by (simp add: callback_defs envError_def env0_def server0_def requestOK_def world0_def
        Values_Get_def isNilOrEmpty_def http_NewRequest_def verifyToken_def
        errorExchange_def cache_Add_def cache_Get_def time_Hour_def tokenCache_def
        isAuthenticated_def)

text \<open>
  C3, amended. The handler looks neither at the \<open>error\<close> field of the token response
  nor at its HTTP status. When the response carries an \<open>error\<close> field, the exchange
  fails exactly when \<open>verifyToken\<close> rejects the response's identity token (as it does
  when there is none): the process then ends with a fatal verification error and nothing
  is cached. When the identity token verifies, the tokens are cached all the same.
\<close>

theorem callback_error_field_ignored:
  assumes "Values_Get (query r) ''state'' = state s"
    and "Values_Get (query r) ''error'' \<noteq> ''interaction_required''"
    and "Values_Get (query r) ''interaction_code'' \<noteq> []"
    and "Values (session r) ''pkce_code_verifier'' = Some (VString v)"
    and "\<not> isNilOrEmpty (Values (session r) ''pkce_code_verifier'')"
    and "\<not> isNilOrEmpty (Values (session r) ''pkce_code_challenge'')"
    and "\<not> isNilOrEmpty (Values (session r) ''pkce_code_challenge_method'')"
    and "http_NewRequest env ''POST'' (tokenURL env s r v) [] = Inr req0"
    and "client_Do env (Header_Add req0 ''Content-Type'' ''application/x-www-form-urlencoded'')
           = (Some resp, None)"
    and "BodyErr resp = None"
    and "Unmarshal_Exchange env (Body resp) = Inr exchange"
    and "Error exchange \<noteq> []"
  shows "(case verifyToken env s (IdToken exchange) of
            Inl e \<Rightarrow>
              \<exists>w'. LoginCallbackHandler env s r w = Exit w'
                  \<and> logs w' = logs w @ [''Verification Error: '' @ e]
          | Inr jwt \<Rightarrow>
              \<exists>w'. LoginCallbackHandler env s r w =
                     Returned (s\<lparr>cache :=
                        cache_Add (clock w)
                          (cache_Add (clock w) (cache s) (ID (session r) @ ''-id_token'')
                             (IdToken exchange) time_Hour)
                          (ID (session r) @ ''-access_token'') (AccessToken exchange)
                          time_Hour\<rparr>) w')"
  using assms
  by (auto simp: callback_defs split: sum.splits option.splits)

theorem callback_error_field_ignored_witness:
  "Error errorOnlyExchange \<noteq> []
   \<and> verifyToken envErrorOnly server0 (IdToken errorOnlyExchange)
       = Inl ''token is not valid; token: ''
   \<and> (\<exists>w'. LoginCallbackHandler envErrorOnly server0 requestOK world0 = Exit w'
          \<and> logs w' = [''Verification Error: token is not valid; token: ''])"
proof -
  have v: "verifyToken envErrorOnly server0 (IdToken errorOnlyExchange)
             = Inl ''token is not valid; token: ''"
    by (simp add: verifyToken_def envErrorOnly_def env0_def errorOnlyExchange_def)
  have e: "Error errorOnlyExchange \<noteq> []"
    by (simp add: errorOnlyExchange_def)
  have "case verifyToken envErrorOnly server0 (IdToken errorOnlyExchange) of
          Inl e \<Rightarrow>
            \<exists>w'. LoginCallbackHandler envErrorOnly server0 requestOK world0 = Exit w'
                \<and> logs w' = logs world0 @ [''Verification Error: '' @ e]
        | Inr jwt \<Rightarrow>
            \<exists>w'. LoginCallbackHandler envErrorOnly server0 requestOK world0 =
                   Returned (server0\<lparr>cache :=
                      cache_Add (clock world0)
                        (cache_Add (clock world0) (cache server0)
                           (ID (session requestOK) @ ''-id_token'')
                           (IdToken errorOnlyExchange) time_Hour)
                        (ID (session requestOK) @ ''-access_token'')
                        (AccessToken errorOnlyExchange) time_Hour\<rparr>) w'"
  proof (rule callback_error_field_ignored [where v = "''ver''"
            and resp = "\<lparr>Status = ''200 OK'', Body = errorOnlyBody, BodyErr = None\<rparr>"
            and ?req0.0 = "\<lparr>Method = ''POST'',
                             URL = tokenURL envErrorOnly server0 requestOK ''ver'',
                             ReqBody = [], Header = []\<rparr>"])
  qed (simp_all add: requestOK_def server0_def Values_Get_def isNilOrEmpty_def
         http_NewRequest_def envErrorOnly_def env0_def errorOnlyExchange_def)
  with v e show ?thesis
    by (simp add: world0_def)
qed

subsection \<open>The login\<close>

lemma LoginHandler_reaches_page:
  assumes "LoginHandler env s r w = Returned s' w'"
  shows "\<exists>s1 r1 w1 pre. LoginHandler_page env s1 r1 w1 = Returned s' w'
       \<and> state s1 = state s \<and> cache s1 = cache s \<and> idxConfig s1 = idxConfig s
       \<and> pages w1 = pages w \<and> entropy w = pre @ entropy w1
       \<and> length pre = (if isNilOrEmpty (Values (session r) ''pkceData'') then 86 else 0)"
proof (cases "isNilOrEmpty (Values (session r) ''pkceData'')")
  case True
  define w2 where "w2 = (case sessionErr r of
        Some err \<Rightarrow> writeW (HttpError err 500) (writeW (HeaderAdd ''Cache-Control'' ''no-cache'') w)
      | None \<Rightarrow> writeW (HeaderAdd ''Cache-Control'' ''no-cache'') w)"
  have w2: "pages w2 = pages w" "entropy w2 = entropy w"
    by (simp_all add: w2_def pages_def writeW_def map_filter_def split: option.splits)
  from assms True obtain p w3 where c: "createPKCEData env w2 = (Inr p, w3)"
    by (auto simp: LoginHandler_def Let_def w2_def split: prod.splits sum.splits)
  from createPKCEData_world [OF c] have w3: "w3 = w2\<lparr>entropy := drop 86 (entropy w2)\<rparr>"
    and len: "86 \<le> length (entropy w2)" by simp_all
  from assms True c obtain r1 sv where
    pg: "LoginHandler_page env (s\<lparr>pkce := Some p\<rparr>) r1 (writeW (SessionSave sv) w3) = Returned s' w'"
    by (auto simp: LoginHandler_def Let_def w2_def)
  have "pages (writeW (SessionSave sv) w3) = pages w"
    using w2 by (simp add: w3 pages_def writeW_def map_filter_def)
  moreover have "entropy w = take 86 (entropy w) @ entropy (writeW (SessionSave sv) w3)"
    by (simp add: writeW_def w3 w2)
  ultimately show ?thesis
    using pg len True w2
    by (intro exI [of _ "s\<lparr>pkce := Some p\<rparr>"] exI [of _ r1]
          exI [of _ "writeW (SessionSave sv) w3"] exI [of _ "take 86 (entropy w)"]) simp
next
  case False
  with assms obtain s1 w1 where pg: "LoginHandler_page env s1 r w1 = Returned s' w'"
    and "state s1 = state s" "cache s1 = cache s" "idxConfig s1 = idxConfig s"
    and "pages w1 = pages w" "entropy w1 = entropy w"
    by (auto simp: LoginHandler_def Let_def writeW_def pages_def map_filter_def
             split: option.splits session_value.splits)
  then show ?thesis
    using False by (intro exI [of _ s1] exI [of _ r] exI [of _ w1] exI [of _ "[]"]) simp
qed

lemma LoginHandler_page_nonce:
  assumes "length na = 32" and "length nb = 32" and "entropy wa = na @ rest"
    and "wb = wa\<lparr>entropy := nb @ rest\<rparr>"
  shows "kept (LoginHandler_page env s r wa) = kept (LoginHandler_page env s r wb)"
proof -
  define w1 where "w1 = wa\<lparr>entropy := rest\<rparr>"
  have a: "generateNonce wa = ((base64_EncodeToString True na, None), w1)"
    using assms by (simp add: generateNonce_def rand_Read_append w1_def)
  have b: "generateNonce wb = ((base64_EncodeToString True nb, None), w1)"
    using assms by (simp add: generateNonce_def rand_Read_append [of nb 32 _ rest] w1_def)
  show ?thesis
  proof (cases "pkce s")
    case None
    then show ?thesis
      by (simp add: LoginHandler_page_def a b kept_def)
  next
    case (Some p)
    show ?thesis
    proof (cases "getInteractionHandle env s (CodeChallenge p) w1")
      case (Ret x w2)
      obtain handle err where x: "x = (handle, err)"
        by (cases x)
      show ?thesis
      proof (cases "url_Parse env (Issuer (idxConfig s))")
        case (Inl e)
        then show ?thesis
          by (simp add: LoginHandler_page_def a b kept_def Some Ret x Let_def)
      next
        case (Inr parts)
        obtain scheme hostname where parts: "parts = (scheme, hostname)"
          by (cases parts)
        show ?thesis
          by (simp add: LoginHandler_page_def a b kept_def Some Ret x Inr parts Let_def
                        saved_def writeW_def printf_def map_filter_def
                   split: option.splits)
      qed
    next
      case (Fatal w2)
      then show ?thesis
        by (simp add: LoginHandler_page_def a b kept_def Some)
    next
      case (Crash w2)
      then show ?thesis
        by (simp add: LoginHandler_page_def a b kept_def Some)
    qed
  qed
qed


lemma createPKCEData_append:
  assumes "length pre = 86" and "entropy w = pre @ e"
  shows "createPKCEData env w =
           (Inr \<lparr>CodeVerifier = base64_EncodeToString False pre,
                 CodeChallenge = base64_EncodeToString False
                                   (sha256_Sum env (base64_EncodeToString False pre)),
                 CodeChallengeMethod = ''S256''\<rparr>, w\<lparr>entropy := e\<rparr>)"
  using assms by (simp add: createPKCEData_def createCodeVerifier_def rand_Read_append Let_def)

lemma writeW_entropy: "writeW a (w\<lparr>entropy := e\<rparr>) = (writeW a w)\<lparr>entropy := e\<rparr>"
  by (simp add: writeW_def)

lemma saved_entropy: "saved (w\<lparr>entropy := e\<rparr>) = saved w"
  by (simp add: saved_def)

lemma LoginHandler_nonce:
  assumes na: "length na = 32" and nb: "length nb = 32"
    and pre: "length pre = (if isNilOrEmpty (Values (session r) ''pkceData'') then 86 else 0)"
  shows "kept (LoginHandler env s r (w\<lparr>entropy := pre @ na @ rest\<rparr>))
       = kept (LoginHandler env s r (w\<lparr>entropy := pre @ nb @ rest\<rparr>))"
proof -
  have pg: "\<And>s1 r1 wx. kept (LoginHandler_page env s1 r1 (wx\<lparr>entropy := na @ rest\<rparr>))
                      = kept (LoginHandler_page env s1 r1 (wx\<lparr>entropy := nb @ rest\<rparr>))"
    by (rule LoginHandler_page_nonce [OF na nb, where rest = rest]) simp_all
  show ?thesis
  proof (cases "isNilOrEmpty (Values (session r) ''pkceData'')")
    case True
    with pre have len: "length pre = 86" by simp
    have c: "\<And>n wx. createPKCEData env (wx\<lparr>entropy := pre @ n @ rest\<rparr>) =
             (Inr \<lparr>CodeVerifier = base64_EncodeToString False pre,
                   CodeChallenge = base64_EncodeToString False
                                     (sha256_Sum env (base64_EncodeToString False pre)),
                   CodeChallengeMethod = ''S256''\<rparr>, wx\<lparr>entropy := n @ rest\<rparr>)"
      using createPKCEData_append [OF len, of "_\<lparr>entropy := pre @ _ @ rest\<rparr>" "_ @ rest" env]
      by simp
    show ?thesis
      by (simp add: LoginHandler_def Let_def True writeW_entropy c pg split: option.splits)
  next
    case False
    with pre have e: "pre = []" by simp
    show ?thesis
      by (simp add: LoginHandler_def Let_def False writeW_entropy e pg
               split: option.splits session_value.splits)
         (simp add: kept_def saved_entropy)
  qed
qed

text \<open>
  C5, amended. The state is not generated per flow initiation: \<open>LoginHandler\<close> renders
  the state stored in the server object (set once by \<open>NewServer\<close>) and leaves it
  unchanged, so every initiation uses the same state. The nonce is generated per
  initiation, as the base64url encoding of 32 bytes newly read from the random source;
  the nonces of two initiations differ whenever those bytes differ.
\<close>

theorem login_state_shared_nonce_fresh:
  assumes "LoginHandler env s r w = Returned s' w'"
  shows "state s' = state s
       \<and> (\<exists>d nonceBytes pre.
             pages w' = pages w @ [d]
           \<and> State d = state s
           \<and> Nonce d = Some (base64_EncodeToString True nonceBytes)
           \<and> length nonceBytes = 32
           \<and> entropy w = pre @ nonceBytes @ entropy w'
           \<and> (\<forall>other. length other = 32 \<longrightarrow>
                 (base64_EncodeToString True other = base64_EncodeToString True nonceBytes)
                   = (other = nonceBytes)))"
proof -
  from LoginHandler_reaches_page [OF assms]
  obtain s1 r1 w1 pre where pg: "LoginHandler_page env s1 r1 w1 = Returned s' w'"
    and s1: "state s1 = state s" and w1: "pages w1 = pages w"
    and pre: "entropy w = pre @ entropy w1"
    by blast
  from LoginHandler_page_Returned [OF pg]
  obtain d where st: "state s' = state s1" and len: "32 \<le> length (entropy w1)"
    and dr: "entropy w' = drop 32 (entropy w1)"
    and d: "pages w' = pages w1 @ [d]" "State d = state s1"
       "Nonce d = Some (base64_EncodeToString True (take 32 (entropy w1)))"
    by blast
  have "entropy w = pre @ take 32 (entropy w1) @ entropy w'"
    by (simp add: pre dr)
  moreover have "length (take 32 (entropy w1)) = 32"
    using len by simp
  moreover have "\<forall>other. length other = 32 \<longrightarrow>
      (base64_EncodeToString True other = base64_EncodeToString True (take 32 (entropy w1)))
        = (other = take 32 (entropy w1))"
    using base64_inj [of _ "take 32 (entropy w1)" True] len by auto
  ultimately show ?thesis
    using st s1 w1 d by auto
qed

text \<open>
  C10. Identity-token verification configures the issuer and, as the only claim to
  validate, the audience (the client id). The nonce that \<open>LoginHandler\<close> generates
  appears on the rendered page; the server object, the sessions saved and the requests
  sent are the same whatever the nonce bytes are, so the nonce is stored nowhere and no
  later verification can compare it with a claim of the identity token.
\<close>

theorem nonce_only_on_page:
  assumes "length na = 32" and "length nb = 32"
    and "length pre = (if isNilOrEmpty (Values (session r) ''pkceData'') then 86 else 0)"
  shows "kept (LoginHandler env s r (w\<lparr>entropy := pre @ na @ rest\<rparr>))
           = kept (LoginHandler env s r (w\<lparr>entropy := pre @ nb @ rest\<rparr>))
       \<and> (\<forall>s' w'. LoginHandler env s r (w\<lparr>entropy := pre @ na @ rest\<rparr>) = Returned s' w' \<longrightarrow>
             map Nonce (pages w') = map Nonce (pages w) @ [Some (base64_EncodeToString True na)])
       \<and> (\<exists>jv. JIssuer jv = Issuer (idxConfig s)
              \<and> ClaimsToValidate jv = [''aud'' \<mapsto> ClientID (idxConfig s)]
              \<and> dom (ClaimsToValidate jv) = {''aud''}
              \<and> verifyToken env s t =
                  (case VerifyIdToken env jv t of
                     (_, Some err) \<Rightarrow> Inl (err @ ''; token: '' @ t)
                   | (Some result, None) \<Rightarrow> Inr result
                   | (None, None) \<Rightarrow> Inl ''token could not be verified: ''))"
proof (intro conjI allI impI)
  show "kept (LoginHandler env s r (w\<lparr>entropy := pre @ na @ rest\<rparr>))
          = kept (LoginHandler env s r (w\<lparr>entropy := pre @ nb @ rest\<rparr>))"
    by (rule LoginHandler_nonce [OF assms])
next
  fix s' w'
  assume ret: "LoginHandler env s r (w\<lparr>entropy := pre @ na @ rest\<rparr>) = Returned s' w'"
  from LoginHandler_reaches_page [OF ret]
  obtain s1 r1 w1 pre' where pg: "LoginHandler_page env s1 r1 w1 = Returned s' w'"
    and w1: "pages w1 = pages (w\<lparr>entropy := pre @ na @ rest\<rparr>)"
    and en: "pre @ na @ rest = pre' @ entropy w1"
    and len: "length pre' = (if isNilOrEmpty (Values (session r) ''pkceData'') then 86 else 0)"
    by auto
  from en len assms(3) have "entropy w1 = na @ rest"
    by simp
  with LoginHandler_page_Returned [OF pg] assms(1)
  obtain d where "pages w' = pages w1 @ [d]" "Nonce d = Some (base64_EncodeToString True na)"
    by auto
  with w1 show "map Nonce (pages w') = map Nonce (pages w) @ [Some (base64_EncodeToString True na)]"
    by (simp add: pages_def)
next
  show "\<exists>jv. JIssuer jv = Issuer (idxConfig s)
              \<and> ClaimsToValidate jv = [''aud'' \<mapsto> ClientID (idxConfig s)]
              \<and> dom (ClaimsToValidate jv) = {''aud''}
              \<and> verifyToken env s t =
                  (case VerifyIdToken env jv t of
                     (_, Some err) \<Rightarrow> Inl (err @ ''; token: '' @ t)
                   | (Some result, None) \<Rightarrow> Inr result
                   | (None, None) \<Rightarrow> Inl ''token could not be verified: '')"
    by (rule exI [of _ "\<lparr>JIssuer = Issuer (idxConfig s),
                         ClaimsToValidate = [''aud'' \<mapsto> ClientID (idxConfig s)]\<rparr>"])
       (simp add: verifyToken_def)
qed

theorem nonce_only_on_page_witness:
  "length (replicate 32 (CHR ''x'')) = 32 \<and> length (replicate 32 (CHR ''y'')) = 32
   \<and> isNilOrEmpty (Values (session request0) ''pkceData'')
   \<and> length (replicate 86 (CHR ''a'')) = 86
   \<and> kept (LoginHandler env0 server0 request0
             (world0\<lparr>entropy := replicate 86 (CHR ''a'') @ replicate 32 (CHR ''x'') @ []\<rparr>))
       = kept (LoginHandler env0 server0 request0
             (world0\<lparr>entropy := replicate 86 (CHR ''a'') @ replicate 32 (CHR ''y'') @ []\<rparr>))
   \<and> (\<exists>w'. LoginHandler env0 server0 request0
             (world0\<lparr>entropy := replicate 86 (CHR ''a'') @ replicate 32 (CHR ''x'') @ []\<rparr>)
               = Returned serverFirst w'
          \<and> map Nonce (pages w') = [Some (base64_EncodeToString True (replicate 32 (CHR ''x'')))])"
proof -
  have "\<exists>w'. LoginHandler env0 server0 request0
             (world0\<lparr>entropy := replicate 86 (CHR ''a'') @ replicate 32 (CHR ''x'') @ []\<rparr>)
               = Returned serverFirst w'"
    by (simp add: login_defs fixture_defs serverFirst_def freshPKCE_def)
  then obtain w' where h: "LoginHandler env0 server0 request0
             (world0\<lparr>entropy := replicate 86 (CHR ''a'') @ replicate 32 (CHR ''x'') @ []\<rparr>)
               = Returned serverFirst w'"
    by blast
  have p: "pages world0 = []"
    by (simp add: pages_def world0_def map_filter_def)
  have k: "isNilOrEmpty (Values (session request0) ''pkceData'')"
    by (simp add: request0_def isNilOrEmpty_def)
  from nonce_only_on_page [where na = "replicate 32 (CHR ''x'')"
          and nb = "replicate 32 (CHR ''y'')" and pre = "replicate 86 (CHR ''a'')"
          and r = request0 and env = env0 and s = server0 and w = world0 and rest = "[]"] k h p
  have "kept (LoginHandler env0 server0 request0
             (world0\<lparr>entropy := replicate 86 (CHR ''a'') @ replicate 32 (CHR ''x'') @ []\<rparr>))
       = kept (LoginHandler env0 server0 request0
             (world0\<lparr>entropy := replicate 86 (CHR ''a'') @ replicate 32 (CHR ''y'') @ []\<rparr>))
     \<and> map Nonce (pages w') = [Some (base64_EncodeToString True (replicate 32 (CHR ''x'')))]"
    by simp
  with h k show ?thesis
    by auto
qed

subsection \<open>Concrete runs of the login\<close>

lemma NewServer_state:
  "NewServer idxNew tplErr w = Started s w1 \<Longrightarrow>
     state s = hex_EncodeToString (fst (fst (rand_Read 16 w)))"
  by (auto simp: NewServer_def split: sum.splits prod.splits option.splits)

text \<open>
  C5, as stated, fails for the state: two successive flow initiations on one server, with
  different random bytes, render the same state.
\<close>

theorem login_state_counterexample:
  "serverOf (LoginHandler env0 server0 request0 world0) = Some serverFirst
   \<and> map State (pages (worldOf (LoginHandler env0 server0 request0 world0)))
        = [''00112233445566778899aabbccddeeff'']
   \<and> map State (pages (worldOf (LoginHandler env0 serverFirst request0 world1)))
        = [''00112233445566778899aabbccddeeff'']"
  by (simp add: login_defs fixture_defs serverFirst_def freshPKCE_def pages_def map_filter_def
        world1_def)

theorem login_state_shared_nonce_fresh_witness:
  "\<exists>w'. LoginHandler env0 server0 request0 world0 = Returned serverFirst w'
      \<and> state serverFirst = state server0
      \<and> map State (pages w') = [state server0]"
proof -
  have "\<exists>w'. LoginHandler env0 server0 request0 world0 = Returned serverFirst w'"
    by (simp add: login_defs fixture_defs serverFirst_def freshPKCE_def)
  then obtain w' where h: "LoginHandler env0 server0 request0 world0 = Returned serverFirst w'"
    by blast
  have "pages world0 = []"
    by (simp add: pages_def world0_def map_filter_def)
  with login_state_shared_nonce_fresh [OF h]
  have "state serverFirst = state server0 \<and> map State (pages w') = [state server0]"
    by auto
  with h show ?thesis by (intro exI [of _ w']) simp
qed

text \<open>
  C7. A login request whose session holds the PKCE data of an earlier login (no key
  \<open>pkceData\<close> exists, the data sit under \<open>pkce_code_verifier\<close>,
  \<open>pkce_code_challenge\<close> and \<open>pkce_code_challenge_method\<close>) does not reuse them:
  the handler generates a new pair and overwrites the session values.
\<close>

theorem login_ignores_session_pkce:
  "Values (session loginRequest) ''pkceData'' = None
   \<and> Values (session loginRequest) ''pkce_code_verifier'' = Some (VString ''ver'')
   \<and> Values (session loginRequest) ''pkce_code_challenge'' = Some (VString ''chal'')
   \<and> pkce serverP = Some \<lparr>CodeVerifier = ''ver'', CodeChallenge = ''chal'',
                            CodeChallengeMethod = ''S256''\<rparr>
   \<and> map_option pkce (serverOf (LoginHandler env0 serverP loginRequest world0)) = Some (Some freshPKCE)
   \<and> savedValues ''pkce_code_verifier'' (worldOf (LoginHandler env0 serverP loginRequest world0))
       = [Some (VString (CodeVerifier freshPKCE))]
   \<and> savedValues ''pkce_code_challenge'' (worldOf (LoginHandler env0 serverP loginRequest world0))
       = [Some (VString (CodeChallenge freshPKCE))]
   \<and> length (CodeVerifier freshPKCE) = 115"
  by (simp add: login_defs fixture_defs serverP_def loginRequest_def requestOK_def freshPKCE_def
        savedValues_def saved_def map_filter_def raw_length)

subsection \<open>The logout\<close>

lemmas logout_defs = LogoutHandler_def flushAndRedirect_def cache_Flush_def cache_Get_def
  Let_def writeW_def printf_def Do_def http_NewRequest_def Header_Add_def isAuthenticated_def
  isNilOrEmpty_def

text \<open>
  C4, as stated, fails: the logout of session \<open>A\<close> removes the cache entries of
  session \<open>B\<close>, which is authenticated before and not after.
\<close>

theorem logout_flushes_other_sessions_counterexample:
  "isAuthenticated serverAB requestB world0
   \<and> cache_Get (clock world0) (cache serverAB) ''B-access_token'' = Some ''atB''
   \<and> LogoutHandler env0 serverAB request0 world0
       = Returned (serverAB\<lparr>cache := Map.empty\<rparr>) (world0\<lparr>out := [Redirect ''/'' 302]\<rparr>)
   \<and> cache_Get (clock world0) (cache (serverAB\<lparr>cache := Map.empty\<rparr>)) ''B-access_token'' = None
   \<and> \<not> isAuthenticated (serverAB\<lparr>cache := Map.empty\<rparr>) requestB world0"
  by (simp add: logout_defs fixture_defs serverAB_def cacheAB_def tokenCache_def requestB_def)

text \<open>
  C4, amended. A logout that returns leaves the Token Cache empty: it removes the entries
  of the requesting session and those of every other session.
\<close>

theorem logout_flushes_all:
  assumes "LogoutHandler env s r w = Returned s' w'"
  shows "s' = s\<lparr>cache := Map.empty\<rparr> \<and> (\<forall>now k. cache_Get now (cache s') k = None)"
  using assms
  by (auto simp: LogoutHandler_def flushAndRedirect_def cache_Flush_def cache_Get_def Let_def
           split: option.splits sum.splits prod.splits)

theorem logout_flushes_all_witness:
  "LogoutHandler env0 serverAB request0 world0
       = Returned (serverAB\<lparr>cache := Map.empty\<rparr>) (world0\<lparr>out := [Redirect ''/'' 302]\<rparr>)
   \<and> cache_Get 1000 (cache (serverAB\<lparr>cache := Map.empty\<rparr>)) ''A-id_token'' = None
   \<and> cache_Get 1000 (cache (serverAB\<lparr>cache := Map.empty\<rparr>)) ''B-id_token'' = None"
proof -
  have h: "LogoutHandler env0 serverAB request0 world0
       = Returned (serverAB\<lparr>cache := Map.empty\<rparr>) (world0\<lparr>out := [Redirect ''/'' 302]\<rparr>)"
    by (simp add: logout_defs fixture_defs)
  from logout_flushes_all [OF h] h show ?thesis by blast
qed

text \<open>
  C8. With a session that the store returns without error and a cached access token for
  it, the logout sends no revoke request. With a session lookup error the revoke request
  is sent, and when the HTTP client fails with a nil response the handler panics: nothing
  is logged, the cache is not flushed and no redirect is written.
\<close>

theorem logout_revoke_skipped_or_panics:
  "sessionErr request0 = None
   \<and> cache_Get (clock world0) (cache serverAB) (ID (session request0) @ ''-access_token'')
       = Some ''at''
   \<and> LogoutHandler env0 serverAB request0 world0
       = Returned (serverAB\<lparr>cache := Map.empty\<rparr>) (world0\<lparr>out := [Redirect ''/'' 302]\<rparr>)
   \<and> sent (worldOf (LogoutHandler env0 serverAB request0 world0)) = []
   \<and> panicked (LogoutHandler envDown serverAB requestBroken world0)
   \<and> serverOf (LogoutHandler envDown serverAB requestBroken world0) = Some serverAB
   \<and> map URL (sent (worldOf (LogoutHandler envDown serverAB requestBroken world0)))
       = [''https://idp.example.com/oauth2/default/v1/revoke'']
   \<and> out (worldOf (LogoutHandler envDown serverAB requestBroken world0)) = []
   \<and> logs (worldOf (LogoutHandler envDown serverAB requestBroken world0)) = []"
  by (simp add: logout_defs fixture_defs serverAB_def cacheAB_def tokenCache_def envDown_def
        requestBroken_def oAuthEndPoint_def Values_Set_def Values_Add_def Values_Del_def)

end
